theory Spec2Isabelle
  imports Complex_Main
begin

section \<open>The heatmap pipeline of heatmap\_interactive.py and heatmap\_whole.py\<close>

text \<open>
  The scripts read a delimited text matrix, smooth it, slice a region out of it and lay
  panels out in a figure. The model follows \<^verbatim>\<open>HeatmapVisualizer\<close> of
  \<^verbatim>\<open>heatmap_interactive.py\<close> function by function.

  Values are numpy \<^verbatim>\<open>float64\<close> in the source: finite floats are reals, and a
  value is compared, sliced and copied exactly. Where numpy and matplotlib compute with
  them (\<^verbatim>\<open>np.median\<close>, the limits of the colorbar) the rounding of float64 is
  modelled; the smoothing filter of scipy is modelled over the reals. Fonts, padding, tick
  parameters, the figure size and the colormap (one constant list of nine colours) are
  attributes of the rendering backend and are left out of a panel.
\<close>

subsection \<open>Errors\<close>

text \<open>
  The source defines no exception class of its own: every failure is a built-in Python
  exception raised by the interpreter, numpy or the standard library. The reason of a
  \<^verbatim>\<open>ValueError\<close> records the operation that raised it.
\<close>

datatype value_error =
    EmptySeparator
  | CouldNotConvertToFloat
  | InhomogeneousShape
  | NotEnoughValuesToUnpack
  | ZeroSizeReduction
  | UnsupportedFormat

datatype error =
    FileNotFoundError
  | KeyError
  | IndexError
  | TypeError
  | OverflowError
  | OSError
  | ValueError value_error

text \<open>Sequencing of steps that may raise: the first exception ends the run.\<close>

definition and_then :: "error + 'a \<Rightarrow> ('a \<Rightarrow> error + 'b) \<Rightarrow> error + 'b" where
  "and_then m f = (case m of Inl e \<Rightarrow> Inl e | Inr x \<Rightarrow> f x)"

subsection \<open>Arrays and regions\<close>

type_synonym grid = "real list list"

text \<open>
  A numpy array as the scripts meet it: the two-dimensional array of stacked rows, or the
  one-dimensional array (\<^verbatim>\<open>np.array([])\<close> has shape \<^verbatim>\<open>(0,)\<close>). The column
  count of a two-dimensional array without rows is not represented; the source reads
  \<^verbatim>\<open>shape\<close> only from a loaded array, which has rows.
\<close>

datatype ndarray = Array1D "real list" | Array2D grid

text \<open>A region is the tuple \<^verbatim>\<open>(x, y, w, h)\<close> of Python integers.\<close>

type_synonym region = "int \<times> int \<times> int \<times> int"

text \<open>
  \<^verbatim>\<open>np.array(data)\<close> on a list of rows of floats. From numpy 1.24 on, rows of
  differing lengths raise \<^verbatim>\<open>ValueError\<close> (inhomogeneous shape); the array is
  otherwise the stacked rows, and one-dimensional for the empty list.
\<close>

definition np_array :: "real list list \<Rightarrow> error + ndarray" where
  "np_array rows =
     (if rows = [] then Inr (Array1D [])
      else if list_all (\<lambda>r. length r = length (hd rows)) rows then Inr (Array2D rows)
      else Inl (ValueError InhomogeneousShape))"

text \<open>\<^verbatim>\<open>data.shape\<close>.\<close>

fun np_shape :: "ndarray \<Rightarrow> int list" where
  "np_shape (Array1D v) = [int (length v)]"
| "np_shape (Array2D []) = [0, 0]"
| "np_shape (Array2D (r # rs)) = [int (length (r # rs)), int (length r)]"

text \<open>The elements in row-major order, and \<^verbatim>\<open>data.size\<close>.\<close>

fun flatten :: "ndarray \<Rightarrow> real list" where
  "flatten (Array1D v) = v"
| "flatten (Array2D g) = concat g"

definition np_size :: "ndarray \<Rightarrow> nat" where
  "np_size data = length (flatten data)"

text \<open>
  \<^verbatim>\<open>np.min\<close>, \<^verbatim>\<open>np.max\<close>: a zero-size array has no identity for the
  reduction and raises \<^verbatim>\<open>ValueError\<close>.
\<close>

definition np_min :: "ndarray \<Rightarrow> error + real" where
  "np_min data =
     (case flatten data of [] \<Rightarrow> Inl (ValueError ZeroSizeReduction)
      | v # vs \<Rightarrow> Inr (fold min vs v))"

definition np_max :: "ndarray \<Rightarrow> error + real" where
  "np_max data =
     (case flatten data of [] \<Rightarrow> Inl (ValueError ZeroSizeReduction)
      | v # vs \<Rightarrow> Inr (fold max vs v))"

text \<open>
  Rounding to float64 (binary64, round to nearest, ties to even): a real \<open>x\<close> with
  \<open>2 ^ e \<le> \<bar>x\<bar> < 2 ^ (e + 1)\<close> is rounded to a multiple of \<open>2 ^ (e - 52)\<close>, with
  \<open>e\<close> not below \<open>- 1022\<close> (the subnormal numbers). A result of magnitude
  \<open>2 ^ 1024\<close> or more stands for the infinity of its sign, which float64 gives
  there: it compares with every finite float as the infinity does.
\<close>

definition float_exp :: "real \<Rightarrow> int" where
  "float_exp x = max (- 1022) \<lfloor>log 2 \<bar>x\<bar>\<rfloor>"

definition round_even :: "real \<Rightarrow> int" where
  "round_even q =
     (let f = \<lfloor>q\<rfloor>; d = q - of_int f
      in if d < 1 / 2 then f else if 1 / 2 < d then f + 1 else if even f then f else f + 1)"

definition fl64 :: "real \<Rightarrow> real" where
  "fl64 x =
     (if x = 0 then 0
      else of_int (round_even (x / 2 powi (float_exp x - 52))) * 2 powi (float_exp x - 52))"

text \<open>
  \<^verbatim>\<open>np.median\<close> of the flattened array: the middle element of the sorted values, or
  the mean of the two middle ones as \<^verbatim>\<open>np.mean\<close> computes it in float64, the rounded
  sum divided by 2 and rounded; a sum that overflows is an infinity, and so is its half.
  On a zero-size array numpy returns nan (with a warning); the value 0 stands for it, and
  no cell is ever compared with it.
\<close>

definition np_median :: "ndarray \<Rightarrow> real" where
  "np_median data =
     (let s = sort (flatten data); n = length s
      in if n = 0 then 0
         else if odd n then s ! (n div 2)
         else (let t = fl64 (s ! (n div 2 - 1) + s ! (n div 2))
               in if 2 ^ 1024 \<le> \<bar>t\<bar> then t else fl64 (t / 2)))"

subsection \<open>Strings\<close>

text \<open>
  Strings are lists of code points below 256. \<^verbatim>\<open>str.strip()\<close> removes the
  characters for which \<^verbatim>\<open>str.isspace\<close> holds from both ends.
\<close>

definition isspace :: "char \<Rightarrow> bool" where
  "isspace c =
     (c \<in> set [CHR 0x20, CHR 0x09, CHR 0x0A, CHR 0x0B, CHR 0x0C, CHR 0x0D,
                CHR 0x1C, CHR 0x1D, CHR 0x1E, CHR 0x1F, CHR 0x85, CHR 0xA0])"

definition strip :: "string \<Rightarrow> string" where
  "strip s = rev (dropWhile isspace (rev (dropWhile isspace s)))"

definition startswith :: "string \<Rightarrow> string \<Rightarrow> bool" where
  "startswith s p = (take (length p) s = p)"

text \<open>
  \<^verbatim>\<open>str.split(sep)\<close>: the pieces between the non-overlapping occurrences of
  \<^verbatim>\<open>sep\<close>, found from the left. An empty separator raises \<^verbatim>\<open>ValueError\<close>.
\<close>

function split_from :: "string \<Rightarrow> string \<Rightarrow> string \<Rightarrow> string list" where
  "split_from sep acc [] = [rev acc]"
| "split_from sep acc (c # cs) =
     (if sep \<noteq> [] \<and> startswith (c # cs) sep
      then rev acc # split_from sep [] (drop (length sep) (c # cs))
      else split_from sep (c # acc) cs)"
  by pat_completeness auto
termination
  by (relation "measure (\<lambda>(sep, acc, s). length s)") auto

definition split :: "string \<Rightarrow> string \<Rightarrow> error + string list" where
  "split s sep =
     (if sep = [] then Inl (ValueError EmptySeparator) else Inr (split_from sep [] s))"

subsection \<open>read\_data\<close>

text \<open>
  Python's \<^verbatim>\<open>float\<close> is a parameter \<open>pyfloat\<close> of the model: \<open>None\<close> where
  \<^verbatim>\<open>float\<close> raises \<^verbatim>\<open>ValueError\<close>. A file system is a map from paths to the
  lines of a text file.
\<close>

type_synonym pyfloat = "string \<Rightarrow> real option"

type_synonym files = "string \<rightharpoonup> string list"

text \<open>
  \<^verbatim>\<open>[float(x.strip()) for x in line.split(sep) if x.strip()]\<close>: the tokens that
  are not blank, converted from the left; the first failure raises.
\<close>

fun floats :: "pyfloat \<Rightarrow> string list \<Rightarrow> error + real list" where
  "floats pf [] = Inr []"
| "floats pf (x # xs) =
     (case pf x of
        None \<Rightarrow> Inl (ValueError CouldNotConvertToFloat)
      | Some v \<Rightarrow> and_then (floats pf xs) (\<lambda>vs. Inr (v # vs)))"

definition parse_row :: "pyfloat \<Rightarrow> string \<Rightarrow> string \<Rightarrow> error + real list" where
  "parse_row pf sep line =
     and_then (split line sep)
       (\<lambda>toks. floats pf (filter (\<lambda>x. x \<noteq> []) (map strip toks)))"

text \<open>
  The loop over the lines of the file:
  \<^verbatim>\<open>
    line = line.strip()
    if line and not line.startswith(("#", "Original", "Columns")):
        row = [...]
        if row:
            data.append(row)
  \<close>
\<close>

definition retained :: "string \<Rightarrow> bool" where
  "retained line =
     (line \<noteq> [] \<and>
      \<not> (startswith line ''#'' \<or> startswith line ''Original'' \<or> startswith line ''Columns''))"

fun read_lines :: "pyfloat \<Rightarrow> string \<Rightarrow> string list \<Rightarrow> error + real list list" where
  "read_lines pf sep [] = Inr []"
| "read_lines pf sep (l # ls) =
     (let line = strip l
      in if retained line
         then and_then (parse_row pf sep line)
                (\<lambda>row. and_then (read_lines pf sep ls)
                   (\<lambda>data. Inr (if row \<noteq> [] then row # data else data)))
         else read_lines pf sep ls)"

definition read_data :: "pyfloat \<Rightarrow> files \<Rightarrow> string \<Rightarrow> string \<Rightarrow> error + ndarray" where
  "read_data pf fs filepath sep =
     (case fs filepath of
        None \<Rightarrow> Inl FileNotFoundError
      | Some lines \<Rightarrow> and_then (read_lines pf sep lines) np_array)"

subsection \<open>apply\_rolling\_average\<close>

text \<open>
  \<^verbatim>\<open>scipy.ndimage.uniform_filter(data, size=window_size, mode='nearest')\<close>, a
  library function, after its documentation and over exact reals. Along one axis the
  value at index \<open>i\<close> is the mean of the \<open>size\<close> values at indices
  \<open>i - size div 2, ..., i - size div 2 + size - 1\<close>, an index outside the line
  standing for the nearest one inside. The filter runs along axis 0, then along axis 1,
  and only along axes whose size is greater than 1: otherwise the input is copied.
\<close>

definition nearest :: "nat \<Rightarrow> int \<Rightarrow> nat" where
  "nearest n i = nat (max 0 (min (int n - 1) i))"

definition window :: "nat \<Rightarrow> nat \<Rightarrow> nat \<Rightarrow> nat list" where
  "window n sz i =
     map (\<lambda>k. nearest n (int i - int (sz div 2) + int k)) [0..<sz]"

definition uniform_filter1d :: "real list \<Rightarrow> nat \<Rightarrow> real list" where
  "uniform_filter1d line sz =
     map (\<lambda>i. (\<Sum>k\<leftarrow>window (length line) sz i. line ! k) / real sz)
       [0..<length line]"

definition uniform_filter_axis0 :: "grid \<Rightarrow> nat \<Rightarrow> grid" where
  "uniform_filter_axis0 g sz =
     map (\<lambda>i. map (\<lambda>j. (\<Sum>k\<leftarrow>window (length g) sz i. g ! k ! j) / real sz)
                 [0..<length (g ! i)])
       [0..<length g]"

definition uniform_filter_axis1 :: "grid \<Rightarrow> nat \<Rightarrow> grid" where
  "uniform_filter_axis1 g sz = map (\<lambda>row. uniform_filter1d row sz) g"

definition uniform_filter :: "ndarray \<Rightarrow> int \<Rightarrow> ndarray" where
  "uniform_filter input sz =
     (if 1 < sz
      then (case input of
              Array1D v \<Rightarrow> Array1D (uniform_filter1d v (nat sz))
            | Array2D g \<Rightarrow>
                Array2D (uniform_filter_axis1 (uniform_filter_axis0 g (nat sz)) (nat sz)))
      else input)"

definition apply_rolling_average :: "ndarray \<Rightarrow> int \<Rightarrow> ndarray" where
  "apply_rolling_average data window_size = uniform_filter data window_size"

subsection \<open>Region slicing\<close>

text \<open>
  A Python slice \<^verbatim>\<open>xs[start:stop]\<close> never raises: a negative bound counts from the
  end, and both bounds are clipped to the sequence.
\<close>

definition slice_index :: "nat \<Rightarrow> int \<Rightarrow> nat" where
  "slice_index n i = (if i < 0 then nat (max 0 (i + int n)) else min n (nat i))"

definition py_slice :: "'a list \<Rightarrow> int \<Rightarrow> int \<Rightarrow> 'a list" where
  "py_slice xs start stop =
     (let a = slice_index (length xs) start; b = slice_index (length xs) stop
      in take (b - a) (drop a xs))"

text \<open>
  \<^verbatim>\<open>data[y:y + h, x:x + w]\<close>. Two indices on a one-dimensional array raise
  \<^verbatim>\<open>IndexError\<close>.
\<close>

fun region_slice :: "ndarray \<Rightarrow> region \<Rightarrow> error + ndarray" where
  "region_slice (Array1D v) (x, y, w, h) = Inl IndexError"
| "region_slice (Array2D g) (x, y, w, h) =
     Inr (Array2D (map (\<lambda>row. py_slice row x (x + w)) (py_slice g y (y + h))))"

text \<open>
  \<^verbatim>\<open>_get_default_region\<close>:
  \<^verbatim>\<open>
    h, w = data.shape
    region_h, region_w = max(3, h // 4), max(3, w // 4)
    return (w - region_w, h - region_h, region_w, region_h)
  \<close>
  Unpacking a shape that has not two entries raises \<^verbatim>\<open>ValueError\<close>.
\<close>

definition get_default_region :: "ndarray \<Rightarrow> error + region" where
  "get_default_region data =
     (case np_shape data of
        [h, w] \<Rightarrow>
          (let region_h = max 3 (h div 4); region_w = max 3 (w div 4)
           in Inr (w - region_w, h - region_h, region_w, region_h))
      | _ \<Rightarrow> Inl (ValueError NotEnoughValuesToUnpack))"

subsection \<open>create\_heatmap\<close>

datatype color = White | Black

text \<open>
  One \<^verbatim>\<open>ax.text(i, j, f"{val:.1f}", color=...)\<close>: column, row, the value that is
  formatted, and the colour.
\<close>

record cell_text =
  text_x :: nat
  text_y :: nat
  text_val :: real
  text_color :: color

text \<open>The titles of the panels; the integers are those formatted into the title.\<close>

datatype title =
    Original_Data
  | Rolling_Average_3x3
  | Rolling_Average_6x6
  | Full_Heatmap_with_Marked_Region
  | Zoomed_Region int int int int
  | Original_Region int int
  | Region_3x3 int int
  | Region_6x6 int int

datatype unit_label = Intensity_label | Co_loading_label

text \<open>
  What \<^verbatim>\<open>create_heatmap\<close> puts on an axes: the image with the colour limits of
  its norm, which the colorbar shares, the colorbar label, the rectangle patch, the cell
  texts, the title and the axis labels.
\<close>

record panel =
  panel_data :: ndarray
  panel_vmin :: "real option"
  panel_vmax :: "real option"
  cbar_label :: unit_label
  panel_patch :: "region option"
  panel_texts :: "cell_text list"
  panel_title :: title
  xlabel :: string
  ylabel :: string

text \<open>
  \<^verbatim>\<open>ax.imshow(data, vmin=vmin, vmax=vmax)\<close> of matplotlib: a limit that is
  \<^verbatim>\<open>None\<close> is taken from the data (autoscaling), and stays unset for an image
  without elements.
\<close>

definition autoscale :: "real option \<Rightarrow> error + real \<Rightarrow> real option" where
  "autoscale v m =
     (case v of Some l \<Rightarrow> Some l
      | None \<Rightarrow> (case m of Inl e \<Rightarrow> None | Inr l \<Rightarrow> Some l))"

text \<open>
  \<^verbatim>\<open>matplotlib.transforms.nonsingular(vmin, vmax, expander=0.1)\<close>, on finite
  limits and with the defaults \<^verbatim>\<open>tiny=1e-15\<close> and \<^verbatim>\<open>increasing=True\<close>:
  \<^verbatim>\<open>
    if vmax < vmin:
        vmin, vmax = vmax, vmin
    maxabsvalue = max(abs(vmin), abs(vmax))
    if maxabsvalue < (1e6 / tiny) * np.finfo(float).tiny:
        vmin = -expander
        vmax = expander
    elif vmax - vmin <= maxabsvalue * tiny:
        if vmax == 0 and vmin == 0:
            vmin = -expander
            vmax = expander
        else:
            vmin -= expander*abs(vmin)
            vmax += expander*abs(vmax)
    return vmin, vmax
  \<close>
  The literals are the floats nearest to them, \<^verbatim>\<open>np.finfo(float).tiny\<close> is
  \<open>2 ^ - 1022\<close>, and \<open>threshold\<close> is the right-hand side of the first test.
\<close>

definition expander :: real where
  "expander = fl64 (1 / 10)"

definition tiny :: real where
  "tiny = fl64 (1 / 10 ^ 15)"

definition threshold :: real where
  "threshold = fl64 (fl64 (10 ^ 6 / tiny) * 2 powi (- 1022))"

definition nonsingular :: "real \<Rightarrow> real \<Rightarrow> real \<times> real" where
  "nonsingular vmin vmax =
     (let lo = min vmin vmax; hi = max vmin vmax;
          maxabsvalue = max \<bar>lo\<bar> \<bar>hi\<bar>
      in if maxabsvalue < threshold
         then (- expander, expander)
         else if fl64 (hi - lo) \<le> fl64 (maxabsvalue * tiny)
         then (if hi = 0 \<and> lo = 0 then (- expander, expander)
               else (fl64 (lo - fl64 (expander * \<bar>lo\<bar>)),
                     fl64 (hi + fl64 (expander * \<bar>hi\<bar>))))
         else (lo, hi))"

text \<open>
  \<^verbatim>\<open>plt.colorbar(im, ax=ax, shrink=0.8)\<close> works on the norm of the image: limits
  that are still unset become 0 and 1, and limits that coincide are moved apart.
  \<^verbatim>\<open>
    if not self.norm.scaled():
        self.norm.vmin = 0
        self.norm.vmax = 1
    self.norm.vmin, self.norm.vmax = mtransforms.nonsingular(
        self.norm.vmin, self.norm.vmax, expander=0.1)
  \<close>
\<close>

definition colorbar :: "real option \<Rightarrow> real option \<Rightarrow> real \<times> real" where
  "colorbar vmin vmax =
     (case (vmin, vmax) of
        (Some lo, Some hi) \<Rightarrow> nonsingular lo hi
      | _ \<Rightarrow> nonsingular 0 1)"

text \<open>\<^verbatim>\<open>np.ndenumerate(data)\<close> with the text of each cell.\<close>

definition cell_texts :: "grid \<Rightarrow> real \<Rightarrow> cell_text list" where
  "cell_texts g median_val =
     concat (map (\<lambda>(j, row).
        map (\<lambda>(i, val).
          \<lparr>text_x = i, text_y = j, text_val = val,
           text_color = (if val > median_val then White else Black)\<rparr>)
          (enumerate 0 row))
        (enumerate 0 g))"

text \<open>
  A Python integer is converted to a float where it meets one, in
  \<^verbatim>\<open>Rectangle((x - 0.5, y - 0.5), w, h)\<close> and in the limits that
  \<^verbatim>\<open>ax.add_patch\<close> computes from the rectangle; an integer that rounds to
  \<open>2 ^ 1024\<close> or beyond raises \<^verbatim>\<open>OverflowError\<close>.
\<close>

definition too_large_for_float :: "int \<Rightarrow> bool" where
  "too_large_for_float i = (2 ^ 1024 - 2 ^ 970 \<le> \<bar>i\<bar>)"

definition mark_overflows :: "region option \<Rightarrow> bool" where
  "mark_overflows mark_area =
     (case mark_area of
        None \<Rightarrow> False
      | Some (x, y, w, h) \<Rightarrow>
          too_large_for_float x \<or> too_large_for_float y
          \<or> too_large_for_float w \<or> too_large_for_float h)"

text \<open>
  \<^verbatim>\<open>create_heatmap(ax, data, title, cmap, vmin, vmax, fontsize, show_values,
  mark_area, unit)\<close>. \<^verbatim>\<open>imshow\<close> raises \<^verbatim>\<open>TypeError\<close> on data that is not
  two-dimensional; the colorbar comes next, then the rectangle of \<^verbatim>\<open>mark_area\<close>,
  then the cell texts.
\<close>

definition create_heatmap ::
  "ndarray \<Rightarrow> title \<Rightarrow> real option \<Rightarrow> real option \<Rightarrow> bool \<Rightarrow> region option \<Rightarrow> string
     \<Rightarrow> error + panel" where
  "create_heatmap data ttl vmin_arg vmax_arg show_values mark_area unit =
     (case data of
        Array1D v \<Rightarrow> Inl TypeError
      | Array2D g \<Rightarrow>
          if mark_overflows mark_area then Inl OverflowError
          else
          let clim = colorbar (autoscale vmin_arg (np_min data))
                       (autoscale vmax_arg (np_max data))
          in
          Inr \<lparr>panel_data = data,
               panel_vmin = Some (fst clim),
               panel_vmax = Some (snd clim),
               cbar_label = (if unit = ''Intensity'' then Intensity_label else Co_loading_label),
               panel_patch = mark_area,
               panel_texts = (if show_values \<and> np_size data \<le> 400
                        then cell_texts g (np_median data) else []),
               panel_title = ttl,
               xlabel = ''Columns'',
               ylabel = ''Rows''\<rparr>)"

subsection \<open>The six visualizations\<close>

record figure =
  panels :: "panel list"
  suptitle :: "string option"

text \<open>
  The output locations, by path: an image that was written, or a location at which
  \<^verbatim>\<open>plt.savefig\<close> raises before it writes (the directory is missing or cannot be
  written: \<^verbatim>\<open>OSError\<close> or its subclass \<^verbatim>\<open>FileNotFoundError\<close>; the
  extension names no format of the backend: \<^verbatim>\<open>ValueError\<close>), with the exception
  raised there. A path that is not in the map
  is free. A write that the operating system breaks off half way is outside this model.
\<close>

datatype entry = Image figure | Unwritable error

type_synonym images = "string \<rightharpoonup> entry"

text \<open>
  \<^verbatim>\<open>
    if output_path:
        plt.savefig(output_path)
  \<close>
  \<^verbatim>\<open>None\<close> and the empty string are false.
\<close>

definition savefig :: "string option \<Rightarrow> figure \<Rightarrow> images \<Rightarrow> error + images" where
  "savefig output_path fig imgs =
     (case output_path of
        None \<Rightarrow> Inr imgs
      | Some p \<Rightarrow>
          (if p = [] then Inr imgs
           else (case imgs p of
                   Some (Unwritable e) \<Rightarrow> Inl e
                 | _ \<Rightarrow> Inr (imgs(p \<mapsto> Image fig)))))"

text \<open>The configuration dictionary with the keys the visualizer reads.\<close>

record config =
  cfg_filepath :: "string option"
  cfg_sep :: "string option"
  cfg_region :: "region option"

text \<open>\<^verbatim>\<open>self.read_data(config['filepath'], config.get('sep', '\t'))\<close>\<close>

definition read_config_data :: "pyfloat \<Rightarrow> files \<Rightarrow> config \<Rightarrow> error + ndarray" where
  "read_config_data pf fs cfg =
     (case cfg_filepath cfg of
        None \<Rightarrow> Inl KeyError
      | Some path \<Rightarrow>
          read_data pf fs path (case cfg_sep cfg of None \<Rightarrow> [CHR 0x09] | Some s \<Rightarrow> s))"

text \<open>
  \<^verbatim>\<open>tuple(config.get('region', self._get_default_region(data)))\<close>: the default is
  computed whether or not the key is present.
\<close>

definition region_of_config :: "config \<Rightarrow> ndarray \<Rightarrow> error + region" where
  "region_of_config cfg data =
     and_then (get_default_region data)
       (\<lambda>dflt. Inr (case cfg_region cfg of None \<Rightarrow> dflt | Some r \<Rightarrow> r))"

text \<open>
  The end of every visualization: an exception raised while the panels are made leaves
  the images as they were, and the figure is saved once all its panels are there.
\<close>

definition finish ::
  "error + figure \<Rightarrow> string option \<Rightarrow> images \<Rightarrow> (error + figure) \<times> images" where
  "finish r output_path imgs =
     (case r of
        Inl e \<Rightarrow> (Inl e, imgs)
      | Inr fig \<Rightarrow>
          (case savefig output_path fig imgs of
             Inl e \<Rightarrow> (Inl e, imgs)
           | Inr imgs' \<Rightarrow> (Inr fig, imgs')))"

definition visualize_single ::
  "pyfloat \<Rightarrow> files \<Rightarrow> config \<Rightarrow> string option \<Rightarrow> images \<Rightarrow> (error + figure) \<times> images" where
  "visualize_single pf fs cfg output_path imgs =
     finish
       (and_then (read_config_data pf fs cfg) (\<lambda>data.
        and_then (create_heatmap data Original_Data None None True None ''Co loading'') (\<lambda>p.
        Inr \<lparr>panels = [p], suptitle = None\<rparr>)))
       output_path imgs"

definition visualize_single_rolling_diff_unit ::
  "pyfloat \<Rightarrow> files \<Rightarrow> config \<Rightarrow> string option \<Rightarrow> images \<Rightarrow> (error + figure) \<times> images" where
  "visualize_single_rolling_diff_unit pf fs cfg output_path imgs =
     finish
       (and_then (read_config_data pf fs cfg) (\<lambda>data.
        let data_3x3 = apply_rolling_average data 3;
            data_6x6 = apply_rolling_average data 6
        in
        and_then (create_heatmap data Original_Data None None True None ''Co loading'') (\<lambda>p1.
        and_then (create_heatmap data_3x3 Rolling_Average_3x3 None None True None ''Co loading'') (\<lambda>p2.
        and_then (create_heatmap data_6x6 Rolling_Average_6x6 None None True None ''Co loading'') (\<lambda>p3.
        Inr \<lparr>panels = [p1, p2, p3],
             suptitle = Some ''Cobalt Loading Analysis - Side by Side Comparison''\<rparr>)))))
       output_path imgs"

definition visualize_single_rolling_same_unit ::
  "pyfloat \<Rightarrow> files \<Rightarrow> config \<Rightarrow> string option \<Rightarrow> images \<Rightarrow> (error + figure) \<times> images" where
  "visualize_single_rolling_same_unit pf fs cfg output_path imgs =
     finish
       (and_then (read_config_data pf fs cfg) (\<lambda>data.
        and_then (np_min data) (\<lambda>global_min.
        and_then (np_max data) (\<lambda>global_max.
        let data_3x3 = apply_rolling_average data 3;
            data_6x6 = apply_rolling_average data 6
        in
        and_then (create_heatmap data Original_Data (Some global_min) (Some global_max)
                    True None ''Co loading'') (\<lambda>p1.
        and_then (create_heatmap data_3x3 Rolling_Average_3x3 (Some global_min) (Some global_max)
                    True None ''Co loading'') (\<lambda>p2.
        and_then (create_heatmap data_6x6 Rolling_Average_6x6 (Some global_min) (Some global_max)
                    True None ''Co loading'') (\<lambda>p3.
        Inr \<lparr>panels = [p1, p2, p3],
             suptitle = Some ''Cobalt Loading Analysis - Unified Color Scale''\<rparr>)))))))
       output_path imgs"

definition visualize_whole ::
  "pyfloat \<Rightarrow> files \<Rightarrow> config \<Rightarrow> string option \<Rightarrow> images \<Rightarrow> (error + figure) \<times> images" where
  "visualize_whole pf fs cfg output_path imgs =
     finish
       (and_then (read_config_data pf fs cfg) (\<lambda>data.
        and_then (region_of_config cfg data) (\<lambda>region_coords.
        case region_coords of (x, y, w, h) \<Rightarrow>
        and_then (region_slice data region_coords) (\<lambda>region_data.
        and_then (create_heatmap data Full_Heatmap_with_Marked_Region None None
                    False (Some region_coords) ''Co loading'') (\<lambda>p1.
        and_then (create_heatmap region_data (Zoomed_Region w h x y) None None
                    True None ''Co loading'') (\<lambda>p2.
        Inr \<lparr>panels = [p1, p2], suptitle = Some ''Custom Region Analysis''\<rparr>))))))
       output_path imgs"

definition visualize_whole_rolling_diff_unit ::
  "pyfloat \<Rightarrow> files \<Rightarrow> config \<Rightarrow> string option \<Rightarrow> images \<Rightarrow> (error + figure) \<times> images" where
  "visualize_whole_rolling_diff_unit pf fs cfg output_path imgs =
     finish
       (and_then (read_config_data pf fs cfg) (\<lambda>data.
        and_then (region_of_config cfg data) (\<lambda>region_coords.
        let data_3x3 = apply_rolling_average data 3;
            data_6x6 = apply_rolling_average data 6
        in
        case region_coords of (x, y, w, h) \<Rightarrow>
        and_then (region_slice data region_coords) (\<lambda>region_data.
        and_then (region_slice data_3x3 region_coords) (\<lambda>region_3x3.
        and_then (region_slice data_6x6 region_coords) (\<lambda>region_6x6.
        and_then (create_heatmap data Original_Data None None
                    True (Some region_coords) ''Co loading'') (\<lambda>p1.
        and_then (create_heatmap data_3x3 Rolling_Average_3x3 None None
                    True (Some region_coords) ''Co loading'') (\<lambda>p2.
        and_then (create_heatmap data_6x6 Rolling_Average_6x6 None None
                    True (Some region_coords) ''Co loading'') (\<lambda>p3.
        and_then (create_heatmap region_data (Original_Region w h) None None
                    True None ''Co loading'') (\<lambda>p4.
        and_then (create_heatmap region_3x3 (Region_3x3 w h) None None
                    True None ''Co loading'') (\<lambda>p5.
        and_then (create_heatmap region_6x6 (Region_6x6 w h) None None
                    True None ''Co loading'') (\<lambda>p6.
        Inr \<lparr>panels = [p1, p2, p3, p4, p5, p6],
             suptitle = Some ''Cobalt Loading Analysis with Independent Color Scales''\<rparr>
        ))))))))))))
       output_path imgs"

text \<open>
  In \<^verbatim>\<open>visualize_whole_rolling_same_unit\<close> the Python built-ins
  \<^verbatim>\<open>min(a, b, c)\<close> and \<^verbatim>\<open>max(a, b, c)\<close> take the three extrema of the regions,
  each argument evaluated from the left.
\<close>

definition visualize_whole_rolling_same_unit ::
  "pyfloat \<Rightarrow> files \<Rightarrow> config \<Rightarrow> string option \<Rightarrow> images \<Rightarrow> (error + figure) \<times> images" where
  "visualize_whole_rolling_same_unit pf fs cfg output_path imgs =
     finish
       (and_then (read_config_data pf fs cfg) (\<lambda>data.
        and_then (region_of_config cfg data) (\<lambda>region_coords.
        let data_3x3 = apply_rolling_average data 3;
            data_6x6 = apply_rolling_average data 6
        in
        and_then (np_min data) (\<lambda>global_min.
        and_then (np_max data) (\<lambda>global_max.
        case region_coords of (x, y, w, h) \<Rightarrow>
        and_then (region_slice data region_coords) (\<lambda>region_data.
        and_then (region_slice data_3x3 region_coords) (\<lambda>region_3x3.
        and_then (region_slice data_6x6 region_coords) (\<lambda>region_6x6.
        and_then (np_min region_data) (\<lambda>min_data.
        and_then (np_min region_3x3) (\<lambda>min_3x3.
        and_then (np_min region_6x6) (\<lambda>min_6x6.
        let region_min = min min_data (min min_3x3 min_6x6) in
        and_then (np_max region_data) (\<lambda>max_data.
        and_then (np_max region_3x3) (\<lambda>max_3x3.
        and_then (np_max region_6x6) (\<lambda>max_6x6.
        let region_max = max max_data (max max_3x3 max_6x6) in
        and_then (create_heatmap data Original_Data (Some global_min) (Some global_max)
                    True (Some region_coords) ''Co loading'') (\<lambda>p1.
        and_then (create_heatmap data_3x3 Rolling_Average_3x3 (Some global_min) (Some global_max)
                    True (Some region_coords) ''Co loading'') (\<lambda>p2.
        and_then (create_heatmap data_6x6 Rolling_Average_6x6 (Some global_min) (Some global_max)
                    True (Some region_coords) ''Co loading'') (\<lambda>p3.
        and_then (create_heatmap region_data (Original_Region w h)
                    (Some region_min) (Some region_max) True None ''Co loading'') (\<lambda>p4.
        and_then (create_heatmap region_3x3 (Region_3x3 w h)
                    (Some region_min) (Some region_max) True None ''Co loading'') (\<lambda>p5.
        and_then (create_heatmap region_6x6 (Region_6x6 w h)
                    (Some region_min) (Some region_max) True None ''Co loading'') (\<lambda>p6.
        Inr \<lparr>panels = [p1, p2, p3, p4, p5, p6],
             suptitle = Some ''Cobalt Loading Analysis with Grouped Color Scales''\<rparr>
        ))))))))))))))))))))
       output_path imgs"

text \<open>
  The table \<^verbatim>\<open>viz_methods\<close> of \<^verbatim>\<open>run_visualization\<close>, from the visualization
  type to the method.
\<close>

datatype viz_type =
    Single
  | Single_rolling_diff
  | Single_rolling_same
  | Whole
  | Whole_rolling_diff
  | Whole_rolling_same

fun viz_methods ::
  "viz_type \<Rightarrow> pyfloat \<Rightarrow> files \<Rightarrow> config \<Rightarrow> string option \<Rightarrow> images
     \<Rightarrow> (error + figure) \<times> images" where
  "viz_methods Single = visualize_single"
| "viz_methods Single_rolling_diff = visualize_single_rolling_diff_unit"
| "viz_methods Single_rolling_same = visualize_single_rolling_same_unit"
| "viz_methods Whole = visualize_whole"
| "viz_methods Whole_rolling_diff = visualize_whole_rolling_diff_unit"
| "viz_methods Whole_rolling_same = visualize_whole_rolling_same_unit"

subsection \<open>heatmap\_whole.py\<close>

text \<open>
  The script's own \<^verbatim>\<open>create_heatmap(ax, data, title, fontsize, show_values,
  mark_area)\<close>: the image is drawn without colour limits and the colorbar label is
  fixed.
\<close>

definition create_heatmap_whole ::
  "ndarray \<Rightarrow> title \<Rightarrow> bool \<Rightarrow> region option \<Rightarrow> error + panel" where
  "create_heatmap_whole data ttl show_values mark_area =
     (case data of
        Array1D v \<Rightarrow> Inl TypeError
      | Array2D g \<Rightarrow>
          if mark_overflows mark_area then Inl OverflowError
          else
          let clim = colorbar (autoscale None (np_min data)) (autoscale None (np_max data))
          in
          Inr \<lparr>panel_data = data,
               panel_vmin = Some (fst clim),
               panel_vmax = Some (snd clim),
               cbar_label = Co_loading_label,
               panel_patch = mark_area,
               panel_texts = (if show_values \<and> np_size data \<le> 400
                        then cell_texts g (np_median data) else []),
               panel_title = ttl,
               xlabel = ''Columns'',
               ylabel = ''Rows''\<rparr>)"

text \<open>
  \<^verbatim>\<open>plot_marked_region_heatmaps(data, region_coords, title, output_path)\<close>. With
  \<^verbatim>\<open>region_coords is None\<close> the region is computed by the three lines that are the
  body of \<^verbatim>\<open>_get_default_region\<close>.
\<close>

definition plot_marked_region_heatmaps ::
  "ndarray \<Rightarrow> region option \<Rightarrow> string \<Rightarrow> string option \<Rightarrow> images
     \<Rightarrow> (error + figure) \<times> images" where
  "plot_marked_region_heatmaps data region_arg ttl output_path imgs =
     finish
       (and_then (case region_arg of None \<Rightarrow> get_default_region data | Some r \<Rightarrow> Inr r)
          (\<lambda>region_coords.
        case region_coords of (x, y, w, h) \<Rightarrow>
        and_then (region_slice data region_coords) (\<lambda>region_data.
        and_then (create_heatmap_whole data Full_Heatmap_with_Marked_Region
                    False (Some region_coords)) (\<lambda>p1.
        and_then (create_heatmap_whole region_data (Zoomed_Region w h x y) True None) (\<lambda>p2.
        Inr \<lparr>panels = [p1, p2], suptitle = Some ttl\<rparr>)))))
       output_path imgs"

subsection \<open>Delimited text\<close>

text \<open>
  What a delimited text matrix is, said of the file and not of the reader. A file is a
  list of items, each a line: a row of tokens joined by the separator, with white space
  (the line end among it) around it, or another line. \<open>joined\<close> is
  \<^verbatim>\<open>sep.join(tokens)\<close>.
\<close>

fun joined :: "string \<Rightarrow> string list \<Rightarrow> string" where
  "joined sp [] = []"
| "joined sp [t] = t"
| "joined sp (t # u # ts) = t @ sp @ joined sp (u # ts)"

datatype item = Other string | Row string "string list" string

fun render :: "string \<Rightarrow> item \<Rightarrow> string" where
  "render sp (Other l) = l"
| "render sp (Row ws1 toks ws2) = ws1 @ joined sp toks @ ws2"

fun rows_of :: "item list \<Rightarrow> string list list" where
  "rows_of [] = []"
| "rows_of (Other l # its) = rows_of its"
| "rows_of (Row ws1 toks ws2 # its) = toks # rows_of its"

text \<open>
  A token is bare when it is not empty and has no white space at its ends. The separator
  is clear of a token when it begins at no position of the token, not even running over
  the end of the token into a separator that follows; for a separator of one character
  this says that the character is not in the token.
\<close>

definition bare :: "string \<Rightarrow> bool" where
  "bare t = (t \<noteq> [] \<and> \<not> isspace (hd t) \<and> \<not> isspace (last t))"

fun clear_of :: "string \<Rightarrow> string \<Rightarrow> bool" where
  "clear_of sp [] = True"
| "clear_of sp (c # cs) = (\<not> startswith (c # cs @ butlast sp) sp \<and> clear_of sp cs)"

text \<open>
  A line that is no row is blank, a comment or a header: after its leading white space
  it is empty or begins with \<^verbatim>\<open>#\<close>, \<^verbatim>\<open>Original\<close> or \<^verbatim>\<open>Columns\<close>.
\<close>

definition skipped :: "string \<Rightarrow> bool" where
  "skipped l =
     (let s = dropWhile isspace l
      in s = [] \<or> startswith s ''#'' \<or> startswith s ''Original'' \<or> startswith s ''Columns'')"

text \<open>
  A well-formed row has at least one token; its tokens are bare numerals, clear of the
  separator, and the row does not look like a comment or a header. A well-formed input
  of r x c values is a file of well-formed items with r rows of c tokens each.
\<close>

fun well_formed :: "pyfloat \<Rightarrow> string \<Rightarrow> item \<Rightarrow> bool" where
  "well_formed pf sp (Other l) = skipped l"
| "well_formed pf sp (Row ws1 toks ws2) =
     (list_all isspace ws1 \<and> list_all isspace ws2 \<and> toks \<noteq> []
      \<and> list_all (\<lambda>t. bare t \<and> clear_of sp t \<and> pf t \<noteq> None) toks
      \<and> \<not> skipped (joined sp toks))"

subsection \<open>A number parser for examples\<close>

text \<open>
  Python's \<^verbatim>\<open>float\<close> restricted to the strings of decimal digits, on which it
  returns the number they write. It instantiates \<open>pyfloat\<close> in examples only.
\<close>

definition float_digits :: pyfloat where
  "float_digits s =
     (if s \<noteq> [] \<and> list_all (\<lambda>c. c \<in> set ''0123456789'') s
      then Some (real (foldl (\<lambda>n c. 10 * n + (of_char c - 48)) 0 s))
      else None)"

text \<open>
  Example files, as the lines that iterating over the file yields: a header, a column
  line and three rows of two tab-separated values; the grid [[1, 2], [3, 4]]; and two
  rows of five and four values.
\<close>

definition ex_lines :: "string list" where
  "ex_lines =
     [''# header'', ''Columns: a b c'',
      [CHR ''1'', CHR 0x09, CHR ''2'', CHR 0x0A],
      [CHR ''3'', CHR 0x09, CHR ''4'', CHR 0x0A],
      [CHR ''5'', CHR 0x09, CHR ''6'']]"

definition ex_square :: "string list" where
  "ex_square =
     [[CHR ''1'', CHR 0x09, CHR ''2'', CHR 0x0A], [CHR ''3'', CHR 0x09, CHR ''4'', CHR 0x0A]]"

definition ex_ragged :: "string list" where
  "ex_ragged =
     [[CHR ''1'', CHR 0x09, CHR ''2'', CHR 0x09, CHR ''3'', CHR 0x09, CHR ''4'', CHR 0x09,
       CHR ''5'', CHR 0x0A],
      [CHR ''1'', CHR 0x09, CHR ''2'', CHR 0x09, CHR ''3'', CHR 0x09, CHR ''4'', CHR 0x0A]]"

text \<open>The example files as items.\<close>

definition ex_items :: "item list" where
  "ex_items =
     [Other ''# header'', Other ''Columns: a b c'',
      Row [] [''1'', ''2''] [CHR 0x0A], Row [] [''3'', ''4''] [CHR 0x0A],
      Row [] [''5'', ''6''] []]"

definition ex_ragged_items :: "item list" where
  "ex_ragged_items =
     [Row [] [''1'', ''2'', ''3'', ''4'', ''5''] [CHR 0x0A],
      Row [] [''1'', ''2'', ''3'', ''4''] [CHR 0x0A]]"

section \<open>Properties\<close>

subsection \<open>Sequencing\<close>

lemma and_then_Inr [simp]: "and_then (Inr x) f = f x"
  by (simp add: and_then_def)

lemma and_then_Inl [simp]: "and_then (Inl e) f = Inl e"
  by (simp add: and_then_def)

lemma and_then_eq_Inr: "and_then m f = Inr y \<longleftrightarrow> (\<exists>x. m = Inr x \<and> f x = Inr y)"
  by (cases m) simp_all

subsection \<open>Rounding\<close>

lemma float_exp_eq:
  assumes "2 powi e \<le> \<bar>x\<bar>" and "\<bar>x\<bar> < 2 powi (e + 1)" and "- 1022 \<le> e"
  shows "float_exp x = e"
proof -
  have "(0::real) < 2 powi e" by simp
  from this assms(1) have pos: "0 < \<bar>x\<bar>" by (rule less_le_trans)
  have p1: "(2::real) powr real_of_int e = 2 powi e"
    by (simp add: powr_real_of_int')
  have p2: "(2::real) powr real_of_int (e + 1) = 2 powi (e + 1)"
    by (rule powr_real_of_int') simp_all
  have "\<lfloor>log 2 \<bar>x\<bar>\<rfloor> = e \<longleftrightarrow>
      2 powr real_of_int e \<le> \<bar>x\<bar> \<and> \<bar>x\<bar> < 2 powr real_of_int (e + 1)"
    by (rule floor_log_eq_powr_iff) (use pos in simp_all)
  with assms(1,2) have "\<lfloor>log 2 \<bar>x\<bar>\<rfloor> = e"
    by (simp only: p1 p2)
  with assms(3) show ?thesis by (simp add: float_exp_def)
qed

lemma fl64_eval:
  assumes "2 powi e \<le> \<bar>x\<bar>" and "\<bar>x\<bar> < 2 powi (e + 1)" and "- 1022 \<le> e"
  shows "fl64 x = of_int (round_even (x / 2 powi (e - 52))) * 2 powi (e - 52)"
proof -
  have "(0::real) < 2 powi e" by simp
  from this assms(1) have "0 < \<bar>x\<bar>" by (rule less_le_trans)
  then have "x \<noteq> 0" by simp
  with float_exp_eq [OF assms] show ?thesis by (simp add: fl64_def)
qed

lemma fl64_3: "fl64 3 = 3"
  by (simp add: fl64_eval [of 1] round_even_def)

lemma fl64_5: "fl64 5 = 5"
  by (simp add: fl64_eval [of 2] round_even_def)

lemma fl64_5_2: "fl64 (5 / 2) = 5 / 2"
  by (simp add: fl64_eval [of 1] round_even_def)

lemma tiny_eq: "tiny = 2535301200456459 / 2 ^ 101"
  unfolding tiny_def by (simp add: fl64_eval [of "- 50"] round_even_def)

lemma expander_eq: "expander = 3602879701896397 / 2 ^ 55"
  unfolding expander_def by (simp add: fl64_eval [of "- 4"] round_even_def)

lemma threshold_eq: "threshold = 999999999999999868928 / 2 ^ 1022"
proof -
  have a: "fl64 (10 ^ 6 / tiny) = 999999999999999868928"
    by (simp add: tiny_eq fl64_eval [of 69] round_even_def)
  have b: "fl64 (999999999999999868928 * 2 powi (- 1022)) = 999999999999999868928 / 2 ^ 1022"
    by (simp add: fl64_eval [of "- 953"] round_even_def)
  show ?thesis
    by (simp only: threshold_def a b)
qed

lemma nonsingular_1_4: "nonsingular 1 4 = (1, 4)"
proof -
  have a: "fl64 (4 * tiny) = 2535301200456459 / 2 ^ 99"
    by (simp add: tiny_eq fl64_eval [of "- 48"] round_even_def)
  show ?thesis
    by (simp add: nonsingular_def threshold_eq fl64_3 a Let_def)
qed

subsection \<open>Smoothing\<close>

lemma window_one: "i < n \<Longrightarrow> window n (Suc 0) i = [i]"
  by (simp add: window_def nearest_def)

lemma uniform_filter1d_one: "uniform_filter1d line (Suc 0) = line"
  by (rule nth_equalityI) (simp_all add: uniform_filter1d_def window_one)

lemma uniform_filter_axis0_one: "uniform_filter_axis0 g (Suc 0) = g"
proof (rule nth_equalityI)
  show "length (uniform_filter_axis0 g (Suc 0)) = length g"
    by (simp add: uniform_filter_axis0_def)
next
  fix i assume "i < length (uniform_filter_axis0 g (Suc 0))"
  then have i: "i < length g"
    by (simp add: uniform_filter_axis0_def)
  show "uniform_filter_axis0 g (Suc 0) ! i = g ! i"
    by (rule nth_equalityI) (simp_all add: uniform_filter_axis0_def window_one i)
qed

lemma uniform_filter_axis1_one: "uniform_filter_axis1 g (Suc 0) = g"
  by (simp add: uniform_filter_axis1_def uniform_filter1d_one)

lemma length_uniform_filter1d [simp]: "length (uniform_filter1d line n) = length line"
  by (simp add: uniform_filter1d_def)

lemma map_length_axis0: "map length (uniform_filter_axis0 g n) = map length g"
  by (rule nth_equalityI) (simp_all add: uniform_filter_axis0_def)

lemma map_length_axis1: "map length (uniform_filter_axis1 g n) = map length g"
  by (simp add: uniform_filter_axis1_def comp_def)

lemma apply_rolling_average_2D:
  "\<exists>g'. apply_rolling_average (Array2D g) w = Array2D g' \<and> map length g' = map length g"
  by (simp add: apply_rolling_average_def uniform_filter_def map_length_axis0 map_length_axis1)

text \<open>
  C5. Smoothing with window size 1 is the identity: the filter leaves an axis of size 1
  alone, and the mean over a window of one cell along either axis is the cell itself.
\<close>

theorem identity_smoothing:
  "apply_rolling_average data 1 = data
   \<and> uniform_filter_axis1 (uniform_filter_axis0 g 1) 1 = g
   \<and> uniform_filter1d line 1 = line"
  by (simp add: apply_rolling_average_def uniform_filter_def uniform_filter_axis0_one
      uniform_filter_axis1_one uniform_filter1d_one)

subsection \<open>Loading\<close>

lemma np_array_rectangular:
  assumes "np_array rows = Inr a"
  shows "(rows = [] \<and> a = Array1D []) \<or>
     (rows \<noteq> [] \<and> a = Array2D rows \<and> (\<forall>r\<in>set rows. length r = length (hd rows)))"
proof (cases "rows = []")
  case True
  with assms show ?thesis by (simp add: np_array_def)
next
  case False
  show ?thesis
  proof (cases "list_all (\<lambda>r. length r = length (hd rows)) rows")
    case True
    with False assms have "a = Array2D rows" by (simp add: np_array_def)
    moreover from True have "\<forall>r\<in>set rows. length r = length (hd rows)"
      by (simp only: list_all_iff)
    ultimately show ?thesis using False by blast
  next
    case n: False
    with False assms show ?thesis by (simp add: np_array_def)
  qed
qed

lemma np_array_ragged:
  assumes "r1 \<in> set rows" and "r2 \<in> set rows" and "length r1 \<noteq> length r2"
  shows "np_array rows = Inl (ValueError InhomogeneousShape)"
proof -
  have ne: "rows \<noteq> []" using assms(1) by auto
  have "\<not> list_all (\<lambda>r. length r = length (hd rows)) rows"
  proof
    assume "list_all (\<lambda>r. length r = length (hd rows)) rows"
    then have all: "\<forall>r\<in>set rows. length r = length (hd rows)"
      by (simp only: list_all_iff)
    from all assms(1) have "length r1 = length (hd rows)" by blast
    moreover from all assms(2) have "length r2 = length (hd rows)" by blast
    ultimately show False using assms(3) by simp
  qed
  with ne show ?thesis by (simp add: np_array_def)
qed

lemma np_array_uniform:
  assumes "rows \<noteq> []" and "\<forall>r\<in>set rows. length r = c"
  shows "np_array rows = Inr (Array2D rows)"
proof -
  have "hd rows \<in> set rows" using assms(1) by simp
  then have "length (hd rows) = c" using assms(2) by blast
  with assms(2) have "list_all (\<lambda>r. length r = length (hd rows)) rows"
    by (simp add: list_all_iff)
  with assms(1) show ?thesis by (simp add: np_array_def)
qed

lemma read_data_rectangular:
  assumes "read_data pf fs path sp = Inr (Array2D g)"
  shows "\<forall>r\<in>set g. length r = length (hd g)"
proof (cases "fs path")
  case None
  with assms show ?thesis by (simp add: read_data_def)
next
  case (Some lines)
  with assms have "and_then (read_lines pf sp lines) np_array = Inr (Array2D g)"
    by (simp add: read_data_def)
  then obtain rows where "np_array rows = Inr (Array2D g)"
    unfolding and_then_eq_Inr by blast
  from np_array_rectangular [OF this]
  have "Array2D g = Array2D rows \<and> (\<forall>r\<in>set rows. length r = length (hd rows))"
    by (metis ndarray.distinct(1))
  then have "g = rows" and "\<forall>r\<in>set rows. length r = length (hd rows)"
    by blast+
  then show ?thesis by (simp only:)
qed

lemmas run_defs = float_digits_def parse_row_def split_def strip_def isspace_def
  retained_def startswith_def

lemma ex_lines_rows:
  "read_lines float_digits [CHR 0x09] ex_lines = Inr [[1, 2], [3, 4], [5, 6]]"
  by (simp add: ex_lines_def run_defs)

lemma ex_ragged_rows:
  "read_lines float_digits [CHR 0x09] ex_ragged = Inr [[1, 2, 3, 4, 5], [1, 2, 3, 4]]"
  by (simp add: ex_ragged_def run_defs)

lemma startswith_append_butlast:
  assumes "u \<noteq> []" and "sp \<noteq> []"
  shows "startswith (u @ sp @ rest) sp = startswith (u @ butlast sp) sp"
proof -
  have "u @ sp @ rest = (u @ butlast sp) @ (last sp # rest)"
    using assms(2) by simp
  moreover have "length sp \<le> length (u @ butlast sp)"
    using assms by (cases u) simp_all
  ultimately show ?thesis
    by (simp only: startswith_def take_append) simp
qed

lemma split_from_token:
  assumes "sp \<noteq> []" and "clear_of sp t"
  shows "split_from sp acc (t @ sp @ rest) = (rev acc @ t) # split_from sp [] rest"
  using assms(2)
proof (induction t arbitrary: acc)
  case Nil
  from assms(1) obtain c cs where sp: "sp = c # cs" by (cases sp) auto
  have "startswith (sp @ rest) sp" by (simp add: startswith_def)
  then show ?case using assms(1) by (simp add: sp)
next
  case (Cons c t)
  then have a: "\<not> startswith ((c # t) @ butlast sp) sp" and b: "clear_of sp t"
    by simp_all
  from a have "\<not> startswith ((c # t) @ sp @ rest) sp"
    using startswith_append_butlast [of "c # t" sp rest] assms(1) by simp
  then have "split_from sp acc ((c # t) @ sp @ rest) = split_from sp (c # acc) (t @ sp @ rest)"
    by simp
  with Cons.IH [OF b, of "c # acc"] show ?case by simp
qed

lemma startswith_shorter:
  assumes "startswith u sp"
  shows "startswith (u @ v) sp"
  using assms unfolding startswith_def
  by (metis append_eq_conv_conj append.assoc append_take_drop_id)

lemma split_from_last:
  assumes "sp \<noteq> []" and "clear_of sp t"
  shows "split_from sp acc t = [rev acc @ t]"
  using assms(2)
proof (induction t arbitrary: acc)
  case Nil
  then show ?case by simp
next
  case (Cons c t)
  then have a: "\<not> startswith ((c # t) @ butlast sp) sp" and b: "clear_of sp t"
    by simp_all
  from a have "\<not> startswith (c # t) sp"
    using startswith_shorter [of "c # t" sp "butlast sp"] by blast
  then have "split_from sp acc (c # t) = split_from sp (c # acc) t"
    by simp
  with Cons.IH [OF b, of "c # acc"] show ?case by simp
qed

lemma split_joined:
  assumes "sp \<noteq> []"
  shows "toks \<noteq> [] \<Longrightarrow> \<forall>t\<in>set toks. clear_of sp t
    \<Longrightarrow> split_from sp [] (joined sp toks) = toks"
proof (induction toks)
  case Nil
  then show ?case by simp
next
  case (Cons t ts)
  then have t: "clear_of sp t" by simp
  show ?case
  proof (cases ts)
    case Nil
    with split_from_last [OF assms t, of "[]"] show ?thesis by simp
  next
    case (Cons u us)
    with Cons.prems Cons.IH have "split_from sp [] (joined sp ts) = ts" by simp
    with split_from_token [OF assms t, of "[]" "joined sp ts"] Cons show ?thesis by simp
  qed
qed

lemma strip_padded:
  assumes "list_all isspace ws1" and "list_all isspace ws2"
    and "body \<noteq> []" and "\<not> isspace (hd body)" and "\<not> isspace (last body)"
  shows "strip (ws1 @ body @ ws2) = body"
proof -
  from assms(3) obtain c cs where b: "body = c # cs" by (cases body) auto
  with assms(4) have c: "\<not> isspace c" by simp
  have "dropWhile isspace (ws1 @ body @ ws2) = dropWhile isspace (body @ ws2)"
    by (rule dropWhile_append2) (use assms(1) in \<open>simp add: list_all_iff\<close>)
  also have "\<dots> = body @ ws2"
    using c by (simp add: b)
  finally have 1: "dropWhile isspace (ws1 @ body @ ws2) = body @ ws2" .
  have "rev body \<noteq> []" using assms(3) by simp
  moreover have "hd (rev body) = last body" using assms(3) by (simp add: hd_rev)
  ultimately obtain d ds where r: "rev body = d # ds" "\<not> isspace d"
    using assms(5) by (cases "rev body") auto
  have "dropWhile isspace (rev ws2 @ rev body) = dropWhile isspace (rev body)"
    by (rule dropWhile_append2) (use assms(2) in \<open>simp add: list_all_iff\<close>)
  also have "\<dots> = rev body"
    using r by simp
  finally have "rev (dropWhile isspace (rev (body @ ws2))) = body" by simp
  with 1 show ?thesis by (simp add: strip_def)
qed

lemma strip_bare: "bare t \<Longrightarrow> strip t = t"
  using strip_padded [of "[]" "[]" t] by (simp add: bare_def)

lemma joined_nonempty:
  "toks \<noteq> [] \<Longrightarrow> \<forall>t\<in>set toks. t \<noteq> [] \<Longrightarrow>
     joined sp toks \<noteq> [] \<and> hd (joined sp toks) = hd (hd toks)
     \<and> last (joined sp toks) = last (last toks)"
proof (induction toks)
  case Nil
  then show ?case by simp
next
  case (Cons t ts)
  show ?case
  proof (cases ts)
    case Nil
    with Cons.prems show ?thesis by simp
  next
    case c: (Cons u us)
    with Cons.prems Cons.IH have "joined sp ts \<noteq> []"
      "last (joined sp ts) = last (last ts)" by simp_all
    with Cons.prems c show ?thesis by simp
  qed
qed

lemma floats_all:
  "\<forall>t\<in>set toks. pf t \<noteq> None \<Longrightarrow> floats pf toks = Inr (List.map_filter pf toks)"
  by (induction toks) (auto simp add: List.map_filter_simps)

lemma length_map_filter_all:
  "\<forall>t\<in>set toks. pf t \<noteq> None \<Longrightarrow> length (List.map_filter pf toks) = length toks"
  by (induction toks) (auto simp add: List.map_filter_simps)

lemma parse_row_joined:
  assumes "sp \<noteq> []" and "toks \<noteq> []"
    and "\<forall>t\<in>set toks. bare t \<and> clear_of sp t \<and> pf t \<noteq> None"
  shows "parse_row pf sp (joined sp toks) = Inr (List.map_filter pf toks)"
proof -
  from assms(3) have cl: "\<forall>t\<in>set toks. clear_of sp t" by blast
  have sj: "split_from sp [] (joined sp toks) = toks"
    using assms(2) cl by (rule split_joined [OF assms(1)])
  have "map strip toks = toks"
    using assms(3) by (simp add: map_idI strip_bare)
  moreover have "filter (\<lambda>x. x \<noteq> []) toks = toks"
    using assms(3) by (auto simp add: bare_def filter_id_conv)
  moreover have "floats pf toks = Inr (List.map_filter pf toks)"
    using assms(3) by (intro floats_all) blast
  ultimately show ?thesis
    using assms(1) sj by (simp add: parse_row_def split_def)
qed

lemma rstrip_prefix:
  assumes "startswith s p" and "p \<noteq> []" and "\<not> isspace (last p)"
  shows "startswith (rev (dropWhile isspace (rev s))) p"
proof -
  from assms(1) have s: "s = p @ drop (length p) s"
    unfolding startswith_def by (metis append_take_drop_id)
  define q where "q = drop (length p) s"
  have rp: "dropWhile isspace (rev p) = rev p"
    using assms(2,3) by (cases "rev p") (auto simp add: last_rev [symmetric] hd_rev)
  have "\<exists>z. dropWhile isspace (rev q @ rev p) = z @ rev p"
    by (cases "\<forall>x\<in>set (rev q). isspace x") (auto simp add: dropWhile_append rp)
  then obtain z where "dropWhile isspace (rev s) = z @ rev p"
    using s q_def by (metis rev_append)
  then have "rev (dropWhile isspace (rev s)) = p @ rev z" by simp
  then show ?thesis by (simp add: startswith_def)
qed

lemma skipped_not_retained:
  assumes "skipped l"
  shows "\<not> retained (strip l)"
proof -
  define s where "s = dropWhile isspace l"
  have st: "strip l = rev (dropWhile isspace (rev s))"
    by (simp add: strip_def s_def)
  from assms consider "s = []" | "startswith s ''#''" | "startswith s ''Original''"
    | "startswith s ''Columns''"
    unfolding skipped_def s_def Let_def by blast
  then show ?thesis
  proof cases
    case 1
    then show ?thesis by (simp add: st retained_def)
  next
    case 2
    then have "startswith (strip l) ''#''"
      unfolding st by (rule rstrip_prefix) (simp_all add: isspace_def)
    then show ?thesis by (simp add: retained_def)
  next
    case 3
    then have "startswith (strip l) ''Original''"
      unfolding st by (rule rstrip_prefix) (simp_all add: isspace_def)
    then show ?thesis by (simp add: retained_def)
  next
    case 4
    then have "startswith (strip l) ''Columns''"
      unfolding st by (rule rstrip_prefix) (simp_all add: isspace_def)
    then show ?thesis by (simp add: retained_def)
  qed
qed

lemma row_line:
  assumes "sp \<noteq> []" and "well_formed pf sp (Row ws1 toks ws2)"
  shows "strip (render sp (Row ws1 toks ws2)) = joined sp toks"
    and "retained (joined sp toks)"
    and "parse_row pf sp (joined sp toks) = Inr (List.map_filter pf toks)"
    and "List.map_filter pf toks \<noteq> []"
proof -
  from assms(2) have ws: "list_all isspace ws1" "list_all isspace ws2"
    and ne: "toks \<noteq> []"
    and toks: "\<forall>t\<in>set toks. bare t \<and> clear_of sp t \<and> pf t \<noteq> None"
    and ns: "\<not> skipped (joined sp toks)"
    by (simp_all add: list_all_iff)
  from toks have tne: "\<forall>t\<in>set toks. t \<noteq> []" by (auto simp add: bare_def)
  from joined_nonempty [OF ne tne, of sp]
  have j: "joined sp toks \<noteq> []" "hd (joined sp toks) = hd (hd toks)"
    "last (joined sp toks) = last (last toks)" by simp_all
  from ne toks have "bare (hd toks)" "bare (last toks)" by simp_all
  with j have h: "\<not> isspace (hd (joined sp toks))" "\<not> isspace (last (joined sp toks))"
    by (simp_all add: bare_def)
  show "strip (render sp (Row ws1 toks ws2)) = joined sp toks"
    using strip_padded [OF ws j(1) h] by simp
  from h(1) j(1) have "dropWhile isspace (joined sp toks) = joined sp toks"
    by (cases "joined sp toks") simp_all
  with ns j(1) show "retained (joined sp toks)"
    by (simp add: skipped_def retained_def Let_def)
  show "parse_row pf sp (joined sp toks) = Inr (List.map_filter pf toks)"
    using assms(1) ne toks by (rule parse_row_joined)
  from toks have "length (List.map_filter pf toks) = length toks"
    by (intro length_map_filter_all) blast
  with ne show "List.map_filter pf toks \<noteq> []" by auto
qed

lemma read_lines_items:
  assumes "sp \<noteq> []"
  shows "\<forall>it\<in>set items. well_formed pf sp it \<Longrightarrow>
    read_lines pf sp (map (render sp) items) = Inr (map (List.map_filter pf) (rows_of items))"
proof (induction items)
  case Nil
  then show ?case by simp
next
  case (Cons it items)
  then have ih: "read_lines pf sp (map (render sp) items)
      = Inr (map (List.map_filter pf) (rows_of items))"
    and wf: "well_formed pf sp it"
    by simp_all
  show ?case
  proof (cases it)
    case (Other l)
    with wf have "\<not> retained (strip l)" by (simp add: skipped_not_retained)
    with ih Other show ?thesis by (simp add: Let_def)
  next
    case (Row ws1 toks ws2)
    from row_line [OF assms wf [unfolded Row]] ih Row show ?thesis
      by (simp add: Let_def)
  qed
qed


lemma rows_of_set:
  "toks \<in> set (rows_of items) \<Longrightarrow> \<exists>ws1 ws2. Row ws1 toks ws2 \<in> set items"
proof (induction items)
  case Nil
  then show ?case by simp
next
  case (Cons it items)
  then show ?case by (cases it) auto
qed

lemma length_values:
  assumes "\<forall>it\<in>set items. well_formed pf sp it" and "toks \<in> set (rows_of items)"
  shows "length (List.map_filter pf toks) = length toks" and "toks \<noteq> []"
proof -
  from rows_of_set [OF assms(2)] obtain ws1 ws2 where "Row ws1 toks ws2 \<in> set items"
    by blast
  with assms(1) have wf: "well_formed pf sp (Row ws1 toks ws2)" by blast
  then have "\<forall>t\<in>set toks. pf t \<noteq> None" by (simp add: list_all_iff)
  then show "length (List.map_filter pf toks) = length toks"
    by (rule length_map_filter_all)
  from wf show "toks \<noteq> []" by simp
qed

lemma smoothed_shape:
  assumes "length g = r" and "\<forall>row\<in>set g. length row = c" and "0 < r"
  shows "\<exists>g'. apply_rolling_average (Array2D g) w = Array2D g'
          \<and> length g' = r \<and> (\<forall>row\<in>set g'. length row = c)
          \<and> np_shape (Array2D g') = [int r, int c]"
proof -
  from apply_rolling_average_2D [of g w]
  obtain g' where g': "apply_rolling_average (Array2D g) w = Array2D g'"
    "map length g' = map length g" by auto
  from g'(2) have len: "length g' = length g" by (rule map_eq_imp_length_eq)
  have rows: "\<forall>row\<in>set g'. length row = c"
  proof
    fix row assume "row \<in> set g'"
    then have "length row \<in> set (map length g')" by simp
    with g'(2) have "length row \<in> set (map length g)" by simp
    with assms(2) show "length row = c" by auto
  qed
  from len assms(1,3) obtain a as where c: "g' = a # as" by (cases g') auto
  with rows have "length a = c" by simp
  with c len assms(1) have "np_shape (Array2D g') = [int r, int c]" by simp
  with g'(1) len rows assms(1) show ?thesis by blast
qed

lemma ex_items_lines: "map (render [CHR 0x09]) ex_items = ex_lines"
  by (simp add: ex_items_def ex_lines_def)

lemma ex_items_well_formed: "\<forall>it\<in>set ex_items. well_formed float_digits [CHR 0x09] it"
  by (simp add: ex_items_def skipped_def bare_def startswith_def isspace_def float_digits_def)

lemma ex_ragged_items_lines: "map (render [CHR 0x09]) ex_ragged_items = ex_ragged"
  by (simp add: ex_ragged_items_def ex_ragged_def)

lemma ex_ragged_items_well_formed:
  "\<forall>it\<in>set ex_ragged_items. well_formed float_digits [CHR 0x09] it"
  by (simp add: ex_ragged_items_def skipped_def bare_def startswith_def isspace_def
      float_digits_def)

text \<open>
  C4. A well-formed input of r x c values, r > 0, loads to a grid of exactly r rows and c
  columns, whose cells are the numbers that the tokens write, and smoothing that grid at
  any window size gives a grid of r rows and c columns again.
\<close>

theorem roundtrip_shape:
  assumes "fs path = Some (map (render sp) items)"
    and "sp \<noteq> []"
    and "\<forall>it\<in>set items. well_formed pf sp it"
    and "length (rows_of items) = r"
    and "\<forall>toks\<in>set (rows_of items). length toks = c"
    and "0 < r"
  shows "\<exists>g. read_data pf fs path sp = Inr (Array2D g)
           \<and> g = map (List.map_filter pf) (rows_of items)
           \<and> length g = r \<and> (\<forall>row\<in>set g. length row = c)
           \<and> np_shape (Array2D g) = [int r, int c]
           \<and> (\<forall>w. \<exists>g'. apply_rolling_average (Array2D g) w = Array2D g'
                  \<and> length g' = r \<and> (\<forall>row\<in>set g'. length row = c)
                  \<and> np_shape (Array2D g') = [int r, int c])"
proof -
  define g where "g = map (List.map_filter pf) (rows_of items)"
  have rl: "read_lines pf sp (map (render sp) items) = Inr g"
    unfolding g_def using assms(3) by (rule read_lines_items [OF assms(2)])
  have len: "length g = r"
    using assms(4) by (simp add: g_def)
  have rows: "\<forall>row\<in>set g. length row = c"
  proof
    fix row assume "row \<in> set g"
    then obtain toks where t: "toks \<in> set (rows_of items)" "row = List.map_filter pf toks"
      unfolding g_def by auto
    from length_values(1) [OF assms(3) t(1)] assms(5) t show "length row = c" by simp
  qed
  from len assms(6) have ne: "g \<noteq> []" by auto
  then have "np_array g = Inr (Array2D g)" using rows by (rule np_array_uniform)
  with assms(1) rl have rd: "read_data pf fs path sp = Inr (Array2D g)"
    by (simp add: read_data_def)
  from ne obtain a as where c: "g = a # as" by (cases g) auto
  with rows have "length a = c" by simp
  with c len have sh: "np_shape (Array2D g) = [int r, int c]" by simp
  have sm: "\<forall>w. \<exists>g'. apply_rolling_average (Array2D g) w = Array2D g'
          \<and> length g' = r \<and> (\<forall>row\<in>set g'. length row = c)
          \<and> np_shape (Array2D g') = [int r, int c]"
    using smoothed_shape [OF len rows assms(6)] by blast
  from rd len rows sh sm show ?thesis
    unfolding g_def by blast
qed

theorem roundtrip_shape_witness:
  "\<exists>g. read_data float_digits [''d.txt'' \<mapsto> ex_lines] ''d.txt'' [CHR 0x09] = Inr (Array2D g)
     \<and> g = [[1, 2], [3, 4], [5, 6]]
     \<and> length g = 3 \<and> (\<forall>row\<in>set g. length row = 2)
     \<and> np_shape (Array2D g) = [3, 2]
     \<and> (\<forall>w. \<exists>g'. apply_rolling_average (Array2D g) w = Array2D g'
            \<and> length g' = 3 \<and> (\<forall>row\<in>set g'. length row = 2)
            \<and> np_shape (Array2D g') = [3, 2])"
proof -
  have a: "[''d.txt'' \<mapsto> ex_lines] ''d.txt'' = Some (map (render [CHR 0x09]) ex_items)"
    by (simp add: ex_items_lines)
  have b: "[CHR 0x09] \<noteq> []" by simp
  have c: "length (rows_of ex_items) = 3"
    and d: "\<forall>toks\<in>set (rows_of ex_items). length toks = 2"
    by (simp_all add: ex_items_def)
  have e: "(0::nat) < 3" by simp
  have v: "map (List.map_filter float_digits) (rows_of ex_items) = [[1, 2], [3, 4], [5, 6]]"
    by (simp add: ex_items_def List.map_filter_simps float_digits_def)
  from roundtrip_shape [of "[''d.txt'' \<mapsto> ex_lines]" "''d.txt''" "[CHR 0x09]" ex_items
      float_digits 3 2, OF a b ex_items_well_formed c d e]
  show ?thesis
    unfolding v by simp
qed


text \<open>
  C2, as the code has it. \<^verbatim>\<open>read_data\<close> has no check of its own and the source
  defines no \<^verbatim>\<open>MalformedGridError\<close>: the rows go to \<^verbatim>\<open>np.array\<close> as they were
  parsed. When the retained rows parse to differing numbers of values, or a well-formed
  file has two rows with differing numbers of tokens, \<^verbatim>\<open>np.array\<close> (numpy 1.24 or
  later) raises \<^verbatim>\<open>ValueError\<close> for the inhomogeneous shape, and nothing padded or
  truncated is returned; every two-dimensional grid that loading returns has rows of one
  length.
\<close>

theorem malformed_rows_rejected:
  "(fs path = Some lines \<and> read_lines pf sp lines = Inr rows
      \<and> r1 \<in> set rows \<and> r2 \<in> set rows \<and> length r1 \<noteq> length r2
      \<longrightarrow> read_data pf fs path sp = Inl (ValueError InhomogeneousShape))
   \<and> (fs path = Some (map (render sp) items) \<and> sp \<noteq> []
      \<and> (\<forall>it\<in>set items. well_formed pf sp it)
      \<and> t1 \<in> set (rows_of items) \<and> t2 \<in> set (rows_of items) \<and> length t1 \<noteq> length t2
      \<longrightarrow> read_data pf fs path sp = Inl (ValueError InhomogeneousShape))
   \<and> (read_data pf fs path sp = Inr (Array2D g)
      \<longrightarrow> (\<forall>r1\<in>set g. \<forall>r2\<in>set g. length r1 = length r2))"
proof (intro conjI impI)
  assume a: "fs path = Some lines \<and> read_lines pf sp lines = Inr rows
      \<and> r1 \<in> set rows \<and> r2 \<in> set rows \<and> length r1 \<noteq> length r2"
  then have r: "r1 \<in> set rows" "r2 \<in> set rows" "length r1 \<noteq> length r2"
    by simp_all
  have "np_array rows = Inl (ValueError InhomogeneousShape)"
    using r by (rule np_array_ragged)
  with a show "read_data pf fs path sp = Inl (ValueError InhomogeneousShape)"
    by (simp add: read_data_def)
next
  assume a: "fs path = Some (map (render sp) items) \<and> sp \<noteq> []
      \<and> (\<forall>it\<in>set items. well_formed pf sp it)
      \<and> t1 \<in> set (rows_of items) \<and> t2 \<in> set (rows_of items) \<and> length t1 \<noteq> length t2"
  then have sp: "sp \<noteq> []" and wf: "\<forall>it\<in>set items. well_formed pf sp it"
    and t: "t1 \<in> set (rows_of items)" "t2 \<in> set (rows_of items)" "length t1 \<noteq> length t2"
    by simp_all
  define rows where "rows = map (List.map_filter pf) (rows_of items)"
  have rl: "read_lines pf sp (map (render sp) items) = Inr rows"
    unfolding rows_def using wf by (rule read_lines_items [OF sp])
  have "List.map_filter pf t1 \<in> set rows" "List.map_filter pf t2 \<in> set rows"
    using t(1,2) by (simp_all add: rows_def)
  moreover have "length (List.map_filter pf t1) \<noteq> length (List.map_filter pf t2)"
    using length_values(1) [OF wf t(1)] length_values(1) [OF wf t(2)] t(3) by simp
  ultimately have "np_array rows = Inl (ValueError InhomogeneousShape)"
    by (rule np_array_ragged)
  with a rl show "read_data pf fs path sp = Inl (ValueError InhomogeneousShape)"
    by (simp add: read_data_def)
next
  assume "read_data pf fs path sp = Inr (Array2D g)"
  then have h: "\<forall>r\<in>set g. length r = length (hd g)"
    by (rule read_data_rectangular)
  show "\<forall>r1\<in>set g. \<forall>r2\<in>set g. length r1 = length r2"
  proof (intro ballI)
    fix r1 r2 assume "r1 \<in> set g" "r2 \<in> set g"
    with h have "length r1 = length (hd g)" "length r2 = length (hd g)" by blast+
    then show "length r1 = length r2" by simp
  qed
qed


theorem malformed_rows_rejected_witness:
  "read_data float_digits [''d.txt'' \<mapsto> ex_ragged] ''d.txt'' [CHR 0x09]
     = Inl (ValueError InhomogeneousShape)
   \<and> read_data float_digits [''d.txt'' \<mapsto> ex_lines] ''d.txt'' [CHR 0x09]
     = Inr (Array2D [[1, 2], [3, 4], [5, 6]])
   \<and> map length [[1, 2], [3, 4], [5, 6::real]] = [2, 2, 2]"
proof -
  have a: "[''d.txt'' \<mapsto> ex_ragged] ''d.txt'' = Some ex_ragged" by simp
  have r: "[1, 2, 3, 4, 5] \<in> set [[1, 2, 3, 4, 5], [1, 2, 3, 4::real]]"
    "[1, 2, 3, 4] \<in> set [[1, 2, 3, 4, 5], [1, 2, 3, 4::real]]"
    "length [1, 2, 3, 4, 5::real] \<noteq> length [1, 2, 3, 4::real]"
    by simp_all
  have a': "[''d.txt'' \<mapsto> ex_ragged] ''d.txt''
      = Some (map (render [CHR 0x09]) ex_ragged_items)"
    by (simp add: ex_ragged_items_lines)
  have t: "[''1'', ''2'', ''3'', ''4'', ''5''] \<in> set (rows_of ex_ragged_items)"
    "[''1'', ''2'', ''3'', ''4''] \<in> set (rows_of ex_ragged_items)"
    "length [''1'', ''2'', ''3'', ''4'', ''5''] \<noteq> length [''1'', ''2'', ''3'', ''4'']"
    "[CHR 0x09] \<noteq> []"
    by (simp_all add: ex_ragged_items_def)
  have good: "read_data float_digits [''d.txt'' \<mapsto> ex_lines] ''d.txt'' [CHR 0x09]
     = Inr (Array2D [[1, 2], [3, 4], [5, 6]])"
    by (simp add: read_data_def ex_lines_rows np_array_def)
  note th = malformed_rows_rejected [of "[''d.txt'' \<mapsto> ex_ragged]" "''d.txt''" ex_ragged
      float_digits "[CHR 0x09]" "[[1, 2, 3, 4, 5], [1, 2, 3, 4]]" "[1, 2, 3, 4, 5]"
      "[1, 2, 3, 4]" ex_ragged_items "[''1'', ''2'', ''3'', ''4'', ''5'']"
      "[''1'', ''2'', ''3'', ''4'']" "[[1, 2], [3, 4], [5, 6]]"]
  from th a ex_ragged_rows r
  have bad: "read_data float_digits [''d.txt'' \<mapsto> ex_ragged] ''d.txt'' [CHR 0x09]
     = Inl (ValueError InhomogeneousShape)"
    by blast
  from th a' t ex_ragged_items_well_formed
  have bad': "read_data float_digits [''d.txt'' \<mapsto> ex_ragged] ''d.txt'' [CHR 0x09]
     = Inl (ValueError InhomogeneousShape)"
    by blast
  from malformed_rows_rejected [of "[''d.txt'' \<mapsto> ex_lines]" "''d.txt''" ex_lines
      float_digits "[CHR 0x09]" "[]" "[]" "[]" "[]" "[]" "[]" "[[1, 2], [3, 4], [5, 6]]"] good
  have rect: "\<forall>r1\<in>set [[1, 2], [3, 4], [5, 6::real]]. \<forall>r2\<in>set [[1, 2], [3, 4], [5, 6::real]].
         length r1 = length r2"
    by blast
  from rect have "map length [[1, 2], [3, 4], [5, 6::real]] = [2, 2, 2]" by simp
  with bad' good show ?thesis by blast
qed

text \<open>
  The claim as stated fails in the error that is raised: on the file with a row of five
  values and a row of four, loading raises \<^verbatim>\<open>ValueError\<close>.
\<close>

theorem malformed_rows_counterexample:
  "read_lines float_digits [CHR 0x09] ex_ragged = Inr [[1, 2, 3, 4, 5], [1, 2, 3, 4]]
   \<and> map length [[1, 2, 3, 4, 5], [1, 2, 3, 4::real]] = [5, 4]
   \<and> read_data float_digits [''d.txt'' \<mapsto> ex_ragged] ''d.txt'' [CHR 0x09]
       = Inl (ValueError InhomogeneousShape)"
  by (simp add: read_data_def ex_ragged_rows np_array_def)

subsection \<open>Default region\<close>

lemma np_shape_replicate:
  "0 < r \<Longrightarrow> np_shape (Array2D (replicate r (replicate c v))) = [int r, int c]"
  by (cases r) simp_all

text \<open>
  C3. For a grid of shape rows x cols the default region is
  width = max(3, cols div 4), height = max(3, rows div 4), x = cols - width,
  y = rows - height, with floor division. It is the region when none is supplied: the
  configuration without the key \<^verbatim>\<open>region\<close> gives it, the three visualizations with
  a region run on such a configuration as they run with the default region supplied, and
  so does \<^verbatim>\<open>plot_marked_region_heatmaps\<close> called without a region. A grid of 200
  rows and 160 columns gives (x, y, width, height) = (120, 150, 40, 50), and one of 100
  rows and 80 columns gives (60, 75, 20, 25).
\<close>

theorem default_region_policy:
  assumes "np_shape data = [rows, cols]"
    and "dflt = (cols - max 3 (cols div 4), rows - max 3 (rows div 4),
                 max 3 (cols div 4), max 3 (rows div 4))"
  shows "get_default_region data = Inr dflt
    \<and> (cfg_region cfg = None \<longrightarrow> region_of_config cfg data = Inr dflt)
    \<and> plot_marked_region_heatmaps data None ttl out imgs
        = plot_marked_region_heatmaps data (Some dflt) ttl out imgs
    \<and> (cfg_region cfg = None \<and> read_config_data pf fs cfg = Inr data \<longrightarrow>
          visualize_whole pf fs cfg out imgs
            = visualize_whole pf fs (cfg\<lparr>cfg_region := Some dflt\<rparr>) out imgs
          \<and> visualize_whole_rolling_diff_unit pf fs cfg out imgs
            = visualize_whole_rolling_diff_unit pf fs (cfg\<lparr>cfg_region := Some dflt\<rparr>) out imgs
          \<and> visualize_whole_rolling_same_unit pf fs cfg out imgs
            = visualize_whole_rolling_same_unit pf fs (cfg\<lparr>cfg_region := Some dflt\<rparr>) out imgs)
    \<and> (rows = 200 \<and> cols = 160 \<longrightarrow> dflt = (120, 150, 40, 50))
    \<and> (rows = 100 \<and> cols = 80 \<longrightarrow> dflt = (60, 75, 20, 25))"
proof -
  have d: "get_default_region data = Inr dflt"
    using assms by (simp add: get_default_region_def Let_def)
  have r: "region_of_config c data = Inr (case cfg_region c of None \<Rightarrow> dflt | Some r \<Rightarrow> r)" for c
    by (simp add: region_of_config_def d)
  have rc: "read_config_data pf fs (cfg\<lparr>cfg_region := x\<rparr>) = read_config_data pf fs cfg" for x
    by (simp add: read_config_data_def split: option.splits)
  have "plot_marked_region_heatmaps data None ttl out imgs
        = plot_marked_region_heatmaps data (Some dflt) ttl out imgs"
    by (simp add: plot_marked_region_heatmaps_def d)
  moreover have "visualize_whole pf fs cfg out imgs
            = visualize_whole pf fs (cfg\<lparr>cfg_region := Some dflt\<rparr>) out imgs"
    if "cfg_region cfg = None" "read_config_data pf fs cfg = Inr data"
    using that by (simp add: visualize_whole_def rc r)
  moreover have "visualize_whole_rolling_diff_unit pf fs cfg out imgs
            = visualize_whole_rolling_diff_unit pf fs (cfg\<lparr>cfg_region := Some dflt\<rparr>) out imgs"
    if "cfg_region cfg = None" "read_config_data pf fs cfg = Inr data"
    using that by (simp add: visualize_whole_rolling_diff_unit_def rc r)
  moreover have "visualize_whole_rolling_same_unit pf fs cfg out imgs
            = visualize_whole_rolling_same_unit pf fs (cfg\<lparr>cfg_region := Some dflt\<rparr>) out imgs"
    if "cfg_region cfg = None" "read_config_data pf fs cfg = Inr data"
    using that by (simp add: visualize_whole_rolling_same_unit_def rc r)
  moreover have "rows = 200 \<and> cols = 160 \<longrightarrow> dflt = (120, 150, 40, 50)"
    "rows = 100 \<and> cols = 80 \<longrightarrow> dflt = (60, 75, 20, 25)"
    using assms(2) by simp_all
  ultimately show ?thesis using d r [of cfg] by simp
qed

text \<open>
  The two grids of the examples, and two runs without a region: the script on a grid of
  100 x 80, and the visualizer on the file of three rows and two columns, where the
  default region starts left of the grid.
\<close>

theorem default_region_policy_witness:
  "region_of_config \<lparr>cfg_filepath = Some ''d.txt'', cfg_sep = None, cfg_region = None\<rparr>
       (Array2D (replicate 200 (replicate 160 0))) = Inr (120, 150, 40, 50)
   \<and> region_of_config \<lparr>cfg_filepath = Some ''d.txt'', cfg_sep = None, cfg_region = None\<rparr>
       (Array2D (replicate 100 (replicate 80 0))) = Inr (60, 75, 20, 25)
   \<and> map_sum id (\<lambda>fig. map panel_patch (panels fig))
        (fst (plot_marked_region_heatmaps (Array2D (replicate 100 (replicate 80 0))) None
                ''Custom Region Analysis'' None Map.empty))
      = Inr [Some (60, 75, 20, 25), None]
   \<and> map_sum id (\<lambda>fig. map panel_patch (panels fig))
        (fst (visualize_whole float_digits [''d.txt'' \<mapsto> ex_lines]
                \<lparr>cfg_filepath = Some ''d.txt'', cfg_sep = None, cfg_region = None\<rparr>
                None Map.empty))
      = Inr [Some (- 1, 0, 3, 3), None]"
proof -
  define cfg where "cfg = \<lparr>cfg_filepath = Some ''d.txt'', cfg_sep = None, cfg_region = None\<rparr>"
  have n: "cfg_region cfg = None" by (simp add: cfg_def)
  have a: "np_shape (Array2D (replicate 200 (replicate 160 (0::real)))) = [200, 160]"
    using np_shape_replicate [of 200 160 "0::real"] by simp
  have b: "np_shape (Array2D (replicate 100 (replicate 80 (0::real)))) = [100, 80]"
    using np_shape_replicate [of 100 80 "0::real"] by simp
  have c: "np_shape (Array2D [[1, 2], [3, 4], [5, 6]]) = [3, 2]" by simp
  have rd: "read_config_data float_digits [''d.txt'' \<mapsto> ex_lines] cfg
      = Inr (Array2D [[1, 2], [3, 4], [5, 6]])"
    by (simp add: cfg_def read_config_data_def read_data_def ex_lines_rows np_array_def)
  have one: "region_of_config cfg (Array2D (replicate 200 (replicate 160 0)))
      = Inr (120, 150, 40, 50)"
    using default_region_policy [OF a refl, of cfg] n by simp
  have two: "region_of_config cfg (Array2D (replicate 100 (replicate 80 0)))
      = Inr (60, 75, 20, 25)"
    using default_region_policy [OF b refl, of cfg] n by simp
  have "plot_marked_region_heatmaps (Array2D (replicate 100 (replicate 80 0))) None
                ''Custom Region Analysis'' None Map.empty
      = plot_marked_region_heatmaps (Array2D (replicate 100 (replicate 80 0)))
          (Some (60, 75, 20, 25)) ''Custom Region Analysis'' None Map.empty"
    using default_region_policy [OF b refl, of cfg "''Custom Region Analysis''" None Map.empty]
    by simp
  then have three: "map_sum id (\<lambda>fig. map panel_patch (panels fig))
        (fst (plot_marked_region_heatmaps (Array2D (replicate 100 (replicate 80 0))) None
                ''Custom Region Analysis'' None Map.empty))
      = Inr [Some (60, 75, 20, 25), None]"
    by (simp add: plot_marked_region_heatmaps_def finish_def savefig_def
        create_heatmap_whole_def mark_overflows_def too_large_for_float_def Let_def)
  have "visualize_whole float_digits [''d.txt'' \<mapsto> ex_lines] cfg None Map.empty
      = visualize_whole float_digits [''d.txt'' \<mapsto> ex_lines]
          (cfg\<lparr>cfg_region := Some (- 1, 0, 3, 3)\<rparr>) None Map.empty"
    using default_region_policy [OF c refl, of cfg "''t''" None Map.empty float_digits
        "[''d.txt'' \<mapsto> ex_lines]"] n rd
    by simp
  then have four: "map_sum id (\<lambda>fig. map panel_patch (panels fig))
        (fst (visualize_whole float_digits [''d.txt'' \<mapsto> ex_lines] cfg None Map.empty))
      = Inr [Some (- 1, 0, 3, 3), None]"
    using rd
    by (simp add: visualize_whole_def region_of_config_def get_default_region_def
        read_config_data_def cfg_def finish_def savefig_def
        create_heatmap_def mark_overflows_def too_large_for_float_def Let_def)
  from one two three four show ?thesis
    unfolding cfg_def by blast
qed

text \<open>
  C10. For a grid with at least 3 rows and 3 columns the default region lies within the
  grid and is flush with its bottom-right corner: x and y are not negative,
  x + width = cols and y + height = rows. With fewer than 3 rows the offset y is
  negative, and with fewer than 3 columns the offset x is negative.
\<close>

theorem default_region_in_bounds:
  "np_shape data = [rows, cols] \<Longrightarrow>
     (\<exists>x y w h. get_default_region data = Inr (x, y, w, h)
        \<and> (3 \<le> rows \<and> 3 \<le> cols \<longrightarrow>
              0 \<le> x \<and> 0 \<le> y \<and> x + w = cols \<and> y + h = rows)
        \<and> (rows < 3 \<longrightarrow> y < 0)
        \<and> (cols < 3 \<longrightarrow> x < 0))"
  by (auto simp add: get_default_region_def Let_def max_def)

theorem default_region_in_bounds_witness:
  "get_default_region (Array2D (replicate 5 (replicate 12 0))) = Inr (9, 2, 3, 3)
   \<and> get_default_region (Array2D (replicate 2 (replicate 2 0))) = Inr (- 1, - 1, 3, 3)"
proof -
  have a: "np_shape (Array2D (replicate 5 (replicate 12 (0::real)))) = [5, 12]"
    using np_shape_replicate [of 5 12 "0::real"] by simp
  have b: "np_shape (Array2D (replicate 2 (replicate 2 (0::real)))) = [2, 2]"
    using np_shape_replicate [of 2 2 "0::real"] by simp
  show ?thesis
    using default_region_in_bounds [OF a] default_region_in_bounds [OF b]
    by (auto simp add: get_default_region_def a b)
qed

subsection \<open>Region extraction\<close>

lemma take_drop_nth:
  assumes "b \<le> length xs"
  shows "take (b - a) (drop a xs) = map (nth xs) [a..<b]"
proof (rule nth_equalityI)
  from assms have "min (length xs - a) (b - a) = b - a" by arith
  then show len: "length (take (b - a) (drop a xs)) = length (map (nth xs) [a..<b])"
    by simp
  fix i assume "i < length (take (b - a) (drop a xs))"
  with len have "i < b - a" by simp
  then show "take (b - a) (drop a xs) ! i = map (nth xs) [a..<b] ! i"
    using assms by simp
qed

lemma py_slice_nonneg:
  assumes "0 \<le> a" and "0 \<le> b"
  shows "py_slice xs a b = map (nth xs) [min (length xs) (nat a)..<min (length xs) (nat b)]"
proof -
  have "py_slice xs a b =
      take (min (length xs) (nat b) - min (length xs) (nat a)) (drop (min (length xs) (nat a)) xs)"
    using assms by (simp add: py_slice_def slice_index_def Let_def)
  also have "\<dots> = map (nth xs) [min (length xs) (nat a)..<min (length xs) (nat b)]"
    by (rule take_drop_nth) simp
  finally show ?thesis .
qed

lemma region_extraction:
  assumes "length g = rows" and "\<forall>row\<in>set g. length row = cols"
    and "0 \<le> x" and "0 \<le> y" and "0 \<le> w" and "0 \<le> h"
  shows "region_slice (Array2D g) (x, y, w, h) =
      Inr (Array2D (map (\<lambda>j. map (\<lambda>i. g ! j ! i) [min cols (nat x)..<min cols (nat (x + w))])
                     [min rows (nat y)..<min rows (nat (y + h))]))"
proof -
  have rows: "py_slice g y (y + h) = map (nth g) [min rows (nat y)..<min rows (nat (y + h))]"
    using py_slice_nonneg [of y "y + h" g] assms by simp
  have row: "py_slice (g ! j) x (x + w) = map (nth (g ! j)) [min cols (nat x)..<min cols (nat (x + w))]"
    if "j < rows" for j
  proof -
    from that assms(1) have "g ! j \<in> set g" by simp
    with assms(2) have "length (g ! j) = cols" by blast
    with py_slice_nonneg [of x "x + w" "g ! j"] assms show ?thesis by simp
  qed
  have "map (\<lambda>row. py_slice row x (x + w)) (py_slice g y (y + h)) =
      map (\<lambda>j. py_slice (g ! j) x (x + w)) [min rows (nat y)..<min rows (nat (y + h))]"
    by (simp add: rows)
  also have "\<dots> = map (\<lambda>j. map (nth (g ! j)) [min cols (nat x)..<min cols (nat (x + w))])
                     [min rows (nat y)..<min rows (nat (y + h))]"
    by (rule map_cong) (simp_all add: row)
  finally show ?thesis by simp
qed

text \<open>
  C1, as the code has it. Slicing a two-dimensional grid never fails. For a grid of
  rows x cols and a region with x, y, width and height not negative it returns the rows
  y to min(y + height, rows) - 1 and the columns x to min(x + width, cols) - 1, the
  rectangle clipped to the grid; when x + width <= cols and y + height <= rows that is
  exactly the sub-grid grid[y:y+height, x:x+width].
\<close>

theorem region_extraction_clipped:
  assumes "length g = rows" and "\<forall>row\<in>set g. length row = cols"
    and "0 \<le> x" and "0 \<le> y" and "0 \<le> w" and "0 \<le> h"
  shows "region_slice (Array2D g) (x, y, w, h) =
      Inr (Array2D (map (\<lambda>j. map (\<lambda>i. g ! j ! i) [min cols (nat x)..<min cols (nat (x + w))])
                     [min rows (nat y)..<min rows (nat (y + h))]))
    \<and> (x + w \<le> int cols \<and> y + h \<le> int rows \<longrightarrow>
         region_slice (Array2D g) (x, y, w, h) =
           Inr (Array2D (map (\<lambda>j. map (\<lambda>i. g ! j ! i) [nat x..<nat (x + w)])
                          [nat y..<nat (y + h)])))"
proof (intro conjI impI)
  show clipped: "region_slice (Array2D g) (x, y, w, h) =
      Inr (Array2D (map (\<lambda>j. map (\<lambda>i. g ! j ! i) [min cols (nat x)..<min cols (nat (x + w))])
                     [min rows (nat y)..<min rows (nat (y + h))]))"
    using assms by (rule region_extraction)
  assume inb: "x + w \<le> int cols \<and> y + h \<le> int rows"
  with assms(3-6) have "min cols (nat x) = nat x" "min cols (nat (x + w)) = nat (x + w)"
    "min rows (nat y) = nat y" "min rows (nat (y + h)) = nat (y + h)"
    by linarith+
  with clipped show "region_slice (Array2D g) (x, y, w, h) =
           Inr (Array2D (map (\<lambda>j. map (\<lambda>i. g ! j ! i) [nat x..<nat (x + w)])
                          [nat y..<nat (y + h)]))"
    by simp
qed

theorem region_extraction_clipped_witness:
  "region_slice (Array2D [[1, 2], [3, 4]]) (1, 1, 5, 5) = Inr (Array2D [[4]])
   \<and> region_slice (Array2D [[1, 2], [3, 4]]) (0, 1, 2, 1) = Inr (Array2D [[3, 4]])"
proof -
  have a: "length [[1, 2], [3, 4::real]] = 2"
    and b: "\<forall>row\<in>set [[1, 2], [3, 4::real]]. length row = 2"
    by simp_all
  have z: "(0::int) \<le> 0" "(0::int) \<le> 1" "(0::int) \<le> 2" "(0::int) \<le> 5" by simp_all
  from region_extraction_clipped [OF a b z(2) z(2) z(4) z(4)]
  have "region_slice (Array2D [[1, 2], [3, 4]]) (1, 1, 5, 5) = Inr (Array2D [[4]])"
    by (simp add: upt_rec)
  moreover from region_extraction_clipped [OF a b z(1) z(2) z(3) z(2)]
  have "region_slice (Array2D [[1, 2], [3, 4]]) (0, 1, 2, 1) = Inr (Array2D [[3, 4]])"
    by (simp add: upt_rec)
  ultimately show ?thesis by blast
qed

text \<open>
  The claim as stated fails: with x + width = 6 > 2 = cols the slice of a 2 x 2 grid is
  the one cell that lies inside, and \<^verbatim>\<open>plot_marked_region_heatmaps\<close> draws both
  panels without raising.
\<close>

theorem region_out_of_bounds_counterexample:
  "(1::int) + 5 > 2
   \<and> region_slice (Array2D [[1, 2], [3, 4]]) (1, 1, 5, 5) = Inr (Array2D [[4]])
   \<and> map_sum id (\<lambda>fig. map panel_data (panels fig))
        (fst (plot_marked_region_heatmaps (Array2D [[1, 2], [3, 4]]) (Some (1, 1, 5, 5))
                ''Custom Region Analysis'' None Map.empty))
      = Inr [Array2D [[1, 2], [3, 4]], Array2D [[4]]]"
  by (simp add: plot_marked_region_heatmaps_def finish_def savefig_def create_heatmap_whole_def
      mark_overflows_def too_large_for_float_def py_slice_def slice_index_def Let_def)

subsection \<open>Value overlay\<close>

lemma map_enumerate_nth:
  "map (\<lambda>(i, v). f i v) (enumerate 0 xs) = map (\<lambda>i. f i (xs ! i)) [0..<length xs]"
  by (rule nth_equalityI) (simp_all add: nth_enumerate_eq)

lemma cell_texts_eq:
  "cell_texts g m =
     concat (map (\<lambda>j. map (\<lambda>i.
        \<lparr>text_x = i, text_y = j, text_val = g ! j ! i,
         text_color = (if g ! j ! i > m then White else Black)\<rparr>) [0..<length (g ! j)])
       [0..<length g])"
proof -
  have "cell_texts g m =
     concat (map (\<lambda>(j, row). map (\<lambda>i.
        \<lparr>text_x = i, text_y = j, text_val = row ! i,
         text_color = (if row ! i > m then White else Black)\<rparr>) [0..<length row])
       (enumerate 0 g))"
    unfolding cell_texts_def by (simp only: map_enumerate_nth)
  also have "\<dots> = concat (map (\<lambda>j. map (\<lambda>i.
        \<lparr>text_x = i, text_y = j, text_val = g ! j ! i,
         text_color = (if g ! j ! i > m then White else Black)\<rparr>) [0..<length (g ! j)])
       [0..<length g])"
    by (simp only: map_enumerate_nth)
  finally show ?thesis .
qed




lemma median_square: "np_median (Array2D [[1, 2], [3, 4]]) = 5 / 2"
  by (simp add: np_median_def fl64_5 fl64_5_2)





subsection \<open>The single-mode scenario\<close>

lemma ex_square_data:
  "read_data float_digits [''d.txt'' \<mapsto> ex_square] ''d.txt'' [CHR 0x09]
     = Inr (Array2D [[1, 2], [3, 4]])"
  by (simp add: read_data_def np_array_def ex_square_def run_defs)

lemma ex_square_panel:
  "create_heatmap (Array2D [[1, 2], [3, 4]]) Original_Data None None True None ''Co loading'' =
     Inr \<lparr>panel_data = Array2D [[1, 2], [3, 4]],
          panel_vmin = Some 1, panel_vmax = Some 4,
          cbar_label = Co_loading_label, panel_patch = None,
          panel_texts =
            [\<lparr>text_x = 0, text_y = 0, text_val = 1, text_color = Black\<rparr>,
             \<lparr>text_x = 1, text_y = 0, text_val = 2, text_color = Black\<rparr>,
             \<lparr>text_x = 0, text_y = 1, text_val = 3, text_color = White\<rparr>,
             \<lparr>text_x = 1, text_y = 1, text_val = 4, text_color = White\<rparr>],
          panel_title = Original_Data, xlabel = ''Columns'', ylabel = ''Rows''\<rparr>"
  by (simp add: create_heatmap_def mark_overflows_def cell_texts_eq median_square np_size_def
      np_min_def np_max_def autoscale_def colorbar_def nonsingular_1_4 upt_rec)

text \<open>
  C8, as the code has it. In single mode the grid [[1, 2], [3, 4]], read with the tab
  delimiter, gives one panel with colour limits 1 and 4; the four cell texts are drawn
  (4 cells, at most 400); the median is 2.5, so the values 1 and 2 are black (dark) and
  the values 3 and 4, greater than the median, are white (light). Nothing is saved
  without an output path.
\<close>

theorem single_mode_scenario:
  "visualize_single float_digits [''d.txt'' \<mapsto> ex_square]
       \<lparr>cfg_filepath = Some ''d.txt'', cfg_sep = None, cfg_region = None\<rparr> None Map.empty
     = (Inr \<lparr>panels =
          [\<lparr>panel_data = Array2D [[1, 2], [3, 4]],
            panel_vmin = Some 1, panel_vmax = Some 4,
            cbar_label = Co_loading_label, panel_patch = None,
            panel_texts =
              [\<lparr>text_x = 0, text_y = 0, text_val = 1, text_color = Black\<rparr>,
               \<lparr>text_x = 1, text_y = 0, text_val = 2, text_color = Black\<rparr>,
               \<lparr>text_x = 0, text_y = 1, text_val = 3, text_color = White\<rparr>,
               \<lparr>text_x = 1, text_y = 1, text_val = 4, text_color = White\<rparr>],
            panel_title = Original_Data, xlabel = ''Columns'', ylabel = ''Rows''\<rparr>],
          suptitle = None\<rparr>, Map.empty)
   \<and> np_size (Array2D [[1, 2], [3, 4]]) = 4
   \<and> np_median (Array2D [[1, 2], [3, 4]]) = 5 / 2"
  by (simp add: visualize_single_def read_config_data_def finish_def savefig_def
      ex_square_data ex_square_panel median_square np_size_def)

text \<open>
  The claim as stated fails: the value 3 is not below the median 2.5, and its text is
  white, not dark.
\<close>

theorem single_mode_scenario_counterexample:
  "map_sum id (\<lambda>fig. map (\<lambda>p. filter (\<lambda>t. text_val t = 3) (panel_texts p)) (panels fig))
     (fst (visualize_single float_digits [''d.txt'' \<mapsto> ex_square]
       \<lparr>cfg_filepath = Some ''d.txt'', cfg_sep = None, cfg_region = None\<rparr> None Map.empty))
     = Inr [[\<lparr>text_x = 0, text_y = 1, text_val = 3, text_color = White\<rparr>]]
   \<and> \<not> (3 < np_median (Array2D [[1, 2], [3, 4]]))"
  by (simp add: visualize_single_def read_config_data_def finish_def savefig_def
      ex_square_data ex_square_panel median_square)

end
